(* ===== verification/Prelude.thy ===== *)
theory Prelude
  imports Main "HOL-Library.Word"
begin

text \<open>
  Shared vocabulary of the development: the types that name the model's data (bytes,
  Python strings), the collection \<open>model_simps\<close> that the component proofs add to the
  simplifier, and generic facts on lists, sums and words that several components use.
\<close>

section \<open>Types shared by the components\<close>

text \<open>
  A Python \<open>bytes\<close> object is a list of 8-bit words.  A Python \<open>str\<close> is a
  \<open>string\<close>: one \<open>char\<close> stands for one code point, so \<open>length\<close> counts what
  Python's \<open>len\<close> counts and \<open>take n\<close> is the slice \<open>s[:n]\<close>.  (The texts of the
  model range over the code points an Isabelle \<open>char\<close> can hold; every operation the
  program applies to them, slicing, \<open>len\<close> and concatenation, is generic in the element
  type, and so are the lemmas below.)
\<close>

type_synonym byte = "8 word"
type_synonym bytes = "byte list"
type_synonym pystr = string

named_theorems model_simps "characteristic equations of the model's operations"

section \<open>Sums as exceptions\<close>

text \<open>A computation that may raise is a value of \<open>exc + 'a\<close>; these split its cases.\<close>

lemma sum_case_Inr_iff:
  "(case x of Inl e \<Rightarrow> Inl e | Inr a \<Rightarrow> Inr (f a)) = Inr b \<longleftrightarrow> (\<exists>a. x = Inr a \<and> b = f a)"
  by (cases x) auto

lemma sum_case_Inl_same:
  "(case x of Inl e \<Rightarrow> Inl e | Inr a \<Rightarrow> g a) = Inl e' \<longleftrightarrow>
     (x = Inl e' \<or> (\<exists>a. x = Inr a \<and> g a = Inl e'))"
  by (cases x) auto

section \<open>Bytes and words\<close>

lemma map_sum_id_Inr_iff [simp]: "map_sum id f x = Inr b \<longleftrightarrow> (\<exists>a. x = Inr a \<and> b = f a)"
  by (cases x) auto

lemma unat_byte_less [simp]: "unat (b :: byte) < 256"
  using unsigned_less [of b] by simp

lemma unat_ucast_byte_32 [simp]: "unat (ucast (b :: byte) :: 32 word) = unat b"
proof -
  have "unat b < 4294967296"
    using unat_byte_less [of b] by linarith
  then show ?thesis by (simp add: unsigned_ucast_eq take_bit_nat_eq_self_iff)
qed

end
