(* ===== verification/PyRuntime.thy ===== *)
theory PyRuntime
  imports Prelude
begin

text \<open>
  The fragment of the Python runtime that \<open>src/app.py\<close> relies on: the exceptions its
  calls can raise and \<open>str(e)\<close> of each, the values a model-server reply is made of
  and their subscription \<open>r["key"]\<close>, and a state-and-exception monad in which a
  statement either returns a value or raises, while the effects it already had (the
  requests sent to the server) stay in the state.  \<open>try: ... except Exception as e:\<close>
  is \<^term>\<open>py_catch\<close>.
\<close>

section \<open>Exceptions\<close>

text \<open>
  One constructor per exception class that the program can meet; the argument is the
  exception's argument, from which \<open>str(e)\<close> is computed.  \<open>KeyError\<close> comes from a
  reply without the expected field, \<open>TypeError\<close> from subscribing a value that is not
  a mapping, \<open>ConnectionError\<close> and \<open>ResponseError\<close> from the ollama client,
  \<open>OSError\<close> and \<open>UnidentifiedImageError\<close> from PIL, \<open>PdfReadError\<close> from PyPDF2,
  \<open>UnicodeDecodeError\<close> from \<open>bytes.decode\<close>.
\<close>

datatype exc =
    KeyError pystr
  | TypeError pystr
  | ConnectionError pystr
  | ResponseError pystr
  | OSError pystr
  | UnidentifiedImageError pystr
  | PdfReadError pystr
  | UnicodeDecodeError pystr

subsection \<open>\<open>repr\<close> of a string\<close>

text \<open>
  \<open>str(KeyError(k))\<close> is \<open>repr(k)\<close>, not \<open>k\<close>.  CPython's \<open>repr\<close> of a \<open>str\<close>
  (\<open>unicode_repr\<close>) quotes with \<open>'\<close> unless the text holds a \<open>'\<close> and no
  \<open>"\<close>; it escapes the backslash and the chosen quote, writes tab, newline and return
  as \<open>\t\<close>, \<open>\n\<close>, \<open>\r\<close>, and other non-printable code points below 256 as
  \<open>\xhh\<close> (for these code points the non-printable ones are 0--31, 127--160 and 173).
\<close>

definition py_hex_digit :: "nat \<Rightarrow> char" where
  "py_hex_digit d = ''0123456789abcdef'' ! d"

definition py_printable :: "char \<Rightarrow> bool" where
  "py_printable c \<longleftrightarrow>
     (let n = of_char c :: nat in 32 \<le> n \<and> \<not> (127 \<le> n \<and> n \<le> 160) \<and> n \<noteq> 173)"

definition py_repr_char :: "char \<Rightarrow> char \<Rightarrow> pystr" where
  "py_repr_char q c =
     (if c = q \<or> c = CHR 0x5C then [CHR 0x5C, c]
      else if c = CHR 0x09 then [CHR 0x5C, CHR ''t'']
      else if c = CHR 0x0A then [CHR 0x5C, CHR ''n'']
      else if c = CHR 0x0D then [CHR 0x5C, CHR ''r'']
      else if py_printable c then [c]
      else [CHR 0x5C, CHR ''x'', py_hex_digit (of_char c div 16), py_hex_digit (of_char c mod 16)])"

definition py_repr_str :: "pystr \<Rightarrow> pystr" where
  "py_repr_str s =
     (let q = (if CHR 0x27 \<in> set s \<and> CHR 0x22 \<notin> set s then CHR 0x22 else CHR 0x27)
      in q # concat (map (py_repr_char q) s) @ [q])"

fun exc_str :: "exc \<Rightarrow> pystr" where
  "exc_str (KeyError k) = py_repr_str k"
| "exc_str (TypeError m) = m"
| "exc_str (ConnectionError m) = m"
| "exc_str (ResponseError m) = m"
| "exc_str (OSError m) = m"
| "exc_str (UnidentifiedImageError m) = m"
| "exc_str (PdfReadError m) = m"
| "exc_str (UnicodeDecodeError m) = m"

section \<open>Values of a model-server reply\<close>

text \<open>
  A reply of the ollama client is a JSON-like value; \<open>r["k"]\<close> on it is
  \<^term>\<open>py_getitem\<close>.  A mapping is an association list (the first binding of a key is
  the one read), and a missing key raises \<open>KeyError(k)\<close>; subscribing a value that is
  no mapping with a \<open>str\<close> raises \<open>TypeError\<close> with CPython's message.
\<close>

datatype pyval =
    PNone
  | PBool bool
  | PInt int
  | PStr pystr
  | PList "pyval list"
  | PDict "(pystr \<times> pyval) list"

definition py_quoted :: "pystr \<Rightarrow> pystr" where
  "py_quoted s = CHR 0x27 # s @ [CHR 0x27]"

fun py_getitem :: "pyval \<Rightarrow> pystr \<Rightarrow> exc + pyval" where
  "py_getitem (PDict kvs) k = (case map_of kvs k of None \<Rightarrow> Inl (KeyError k) | Some v \<Rightarrow> Inr v)"
| "py_getitem (PStr _) k = Inl (TypeError (''string indices must be integers, not '' @ py_quoted ''str''))"
| "py_getitem (PList _) k = Inl (TypeError ''list indices must be integers or slices, not str'')"
| "py_getitem PNone k = Inl (TypeError (py_quoted ''NoneType'' @ '' object is not subscriptable''))"
| "py_getitem (PInt _) k = Inl (TypeError (py_quoted ''int'' @ '' object is not subscriptable''))"
| "py_getitem (PBool _) k = Inl (TypeError (py_quoted ''bool'' @ '' object is not subscriptable''))"

subsection \<open>\<open>str\<close> of a reply value\<close>

text \<open>
  An f-string field \<open>{v}\<close> is \<open>format(v)\<close>, which is \<open>str(v)\<close>: a \<open>str\<close> is
  itself, any other value is its \<open>repr\<close>: \<open>None\<close>, \<open>True\<close>, \<open>False\<close>, an
  integer in decimal, \<open>[a, b]\<close> for a list and \<open>{'k': v}\<close> for a dict, the items and
  keys written by \<open>repr\<close> and separated by \<open>", "\<close>.
\<close>

fun py_nat_digits :: "nat \<Rightarrow> pystr" where
  "py_nat_digits n =
     (if n < 10 then [char_of (48 + n)] else py_nat_digits (n div 10) @ [char_of (48 + n mod 10)])"

definition py_int_repr :: "int \<Rightarrow> pystr" where
  "py_int_repr i = (if i < 0 then CHR ''-'' # py_nat_digits (nat (- i)) else py_nat_digits (nat i))"

definition py_join :: "pystr \<Rightarrow> pystr list \<Rightarrow> pystr" where
  "py_join sep xs = (case xs of [] \<Rightarrow> [] | x # ys \<Rightarrow> x @ concat (map (\<lambda>y. sep @ y) ys))"

fun py_repr :: "pyval \<Rightarrow> pystr" where
  "py_repr PNone = ''None''"
| "py_repr (PBool b) = (if b then ''True'' else ''False'')"
| "py_repr (PInt i) = py_int_repr i"
| "py_repr (PStr s) = py_repr_str s"
| "py_repr (PList xs) = ''['' @ py_join '', '' (map py_repr xs) @ '']''"
| "py_repr (PDict kvs) = ''{'' @ py_join '', '' (map (\<lambda>(k, v). py_repr_str k @ '': '' @ py_repr v) kvs) @ ''}''"

fun py_str :: "pyval \<Rightarrow> pystr" where
  "py_str (PStr s) = s"
| "py_str v = py_repr v"

section \<open>Statements that raise, with state\<close>

text \<open>
  A statement runs in a state \<open>'s\<close> and yields either a value or the exception it
  raised, together with the state it leaves behind.  A raise skips the rest of the
  block, but it does not undo the effects that happened before it.
\<close>

type_synonym ('s, 'a) py = "'s \<Rightarrow> (exc + 'a) \<times> 's"

definition py_return :: "'a \<Rightarrow> ('s, 'a) py" where
  "py_return a = (\<lambda>s. (Inr a, s))"

definition py_lift :: "exc + 'a \<Rightarrow> ('s, 'a) py" where
  "py_lift r = (\<lambda>s. (r, s))"

definition py_bind :: "('s, 'a) py \<Rightarrow> ('a \<Rightarrow> ('s, 'b) py) \<Rightarrow> ('s, 'b) py" where
  "py_bind m f = (\<lambda>s. case m s of (Inl e, s') \<Rightarrow> (Inl e, s') | (Inr a, s') \<Rightarrow> f a s')"

text \<open>
  \<open>try: body except Exception as e: return handler(e)\<close>: the handler sees the
  exception and the state in which the body stopped.  The result is no longer fallible.
\<close>

definition py_catch :: "('s, 'a) py \<Rightarrow> (exc \<Rightarrow> 'a) \<Rightarrow> 's \<Rightarrow> 'a \<times> 's" where
  "py_catch m h = (\<lambda>s. case m s of (Inl e, s') \<Rightarrow> (h e, s') | (Inr a, s') \<Rightarrow> (a, s'))"

subsection \<open>Laws of the monad\<close>

lemma py_bind_return [model_simps]: "py_bind (py_return a) f = f a"
  by (simp add: py_bind_def py_return_def)

lemma py_bind_return_right: "py_bind m py_return = m"
  by (rule ext) (simp add: py_bind_def py_return_def split: prod.splits sum.splits)

lemma py_bind_assoc:
  "py_bind (py_bind m f) g = py_bind m (\<lambda>a. py_bind (f a) g)"
  by (rule ext) (simp add: py_bind_def split: prod.splits sum.splits)

lemma py_bind_lift_Inl [model_simps]: "py_bind (py_lift (Inl e)) f = (\<lambda>s. (Inl e, s))"
  by (simp add: py_bind_def py_lift_def)

lemma py_bind_lift_Inr [model_simps]: "py_bind (py_lift (Inr a)) f = f a"
  by (simp add: py_bind_def py_lift_def)

lemma py_bind_apply_Inl [model_simps]:
  "m s = (Inl e, s') \<Longrightarrow> py_bind m f s = (Inl e, s')"
  by (simp add: py_bind_def)

lemma py_bind_apply_Inr [model_simps]:
  "m s = (Inr a, s') \<Longrightarrow> py_bind m f s = f a s'"
  by (simp add: py_bind_def)

lemma py_catch_apply_Inl [model_simps]:
  "m s = (Inl e, s') \<Longrightarrow> py_catch m h s = (h e, s')"
  by (simp add: py_catch_def)

lemma py_catch_apply_Inr [model_simps]:
  "m s = (Inr a, s') \<Longrightarrow> py_catch m h s = (a, s')"
  by (simp add: py_catch_def)

lemma py_catch_cases:
  "py_catch m h s = (r, s') \<Longrightarrow>
     (\<exists>e. m s = (Inl e, s') \<and> r = h e) \<or> m s = (Inr r, s')"
  by (auto simp: py_catch_def split: prod.splits sum.splits)

subsection \<open>Reading a reply\<close>

lemma py_getitem_Inr_iff:
  "py_getitem v k = Inr x \<longleftrightarrow> (\<exists>kvs. v = PDict kvs \<and> map_of kvs k = Some x)"
  by (cases v) (auto split: option.splits)

lemma py_getitem_dict_hit [model_simps]:
  "map_of kvs k = Some x \<Longrightarrow> py_getitem (PDict kvs) k = Inr x"
  by simp

lemma exc_str_KeyError_plain:
  "\<forall>c \<in> set k. py_printable c \<and> c \<noteq> CHR 0x27 \<and> c \<noteq> CHR 0x5C \<Longrightarrow>
     exc_str (KeyError k) = py_quoted k"
proof -
  assume plain: "\<forall>c \<in> set k. py_printable c \<and> c \<noteq> CHR 0x27 \<and> c \<noteq> CHR 0x5C"
  have ctl: "py_printable c \<Longrightarrow> c \<noteq> CHR 0x09 \<and> c \<noteq> CHR 0x0A \<and> c \<noteq> CHR 0x0D" for c
    by (auto simp: py_printable_def)
  have "map (py_repr_char (CHR 0x27)) k = map (\<lambda>c. [c]) k"
    using plain ctl by (auto simp: py_repr_char_def)
  then have "concat (map (py_repr_char (CHR 0x27)) k) = k"
    by (induction k) auto
  moreover have "CHR 0x27 \<notin> set k"
    using plain by auto
  ultimately show ?thesis by (simp add: py_repr_str_def py_quoted_def Let_def)
qed

end
