(* ===== verification/Base64.thy ===== *)
theory Base64
  imports Prelude
begin

text \<open>
  \<open>image_to_base64\<close> (\<open>src/app.py\<close>, lines 9--12) returns
  \<open>base64.b64encode(buffered.getvalue()).decode("utf-8")\<close>.  \<open>base64.b64encode(s)\<close> is
  \<open>binascii.b2a_base64(s, newline=False)\<close>, whose C loop (CPython,
  \<open>Modules/binascii.c\<close>) is modelled here as it is written: a 32-bit accumulator
  \<open>leftchar\<close> (C \<open>unsigned int\<close>, so \<open><<\<close> wraps) into which each input byte is
  shifted, and a bit count \<open>leftbits\<close>; whenever six bits are ready they are emitted
  through the alphabet table; at the end two or four left-over bits are padded with
  \<open>=\<close>.  Against it stand the RFC 4648 reference encoder \<^term>\<open>b64_ref\<close>, which cuts
  the input into 24-bit groups, and the reference decoder \<^term>\<open>b64_decode\<close>, which is
  what the model server applies to the image payload.
\<close>

unbundle bit_operations_syntax

section \<open>The C routine\<close>

text \<open>\<open>table_b2a_base64\<close> and \<open>BASE64_PAD\<close>.\<close>

definition b64_table :: bytes where
  "b64_table = map (\<lambda>c. of_nat (of_char c))
     ''ABCDEFGHIJKLMNOPQRSTUVWXYZabcdefghijklmnopqrstuvwxyz0123456789+/''"

definition b64_pad :: byte where
  "b64_pad = 0x3D"

definition b64_char :: "nat \<Rightarrow> byte" where
  "b64_char n = b64_table ! n"

text \<open>
  The inner loop \<open>while (leftbits >= 6) { this_ch = (leftchar >> (leftbits-6)) & 0x3f;
  leftbits -= 6; *ascii_data++ = table_b2a_base64[this_ch]; }\<close>.
\<close>

fun b64_emit :: "32 word \<Rightarrow> nat \<Rightarrow> bytes \<Rightarrow> bytes \<times> nat" where
  "b64_emit leftchar leftbits out =
     (if 6 \<le> leftbits
      then b64_emit leftchar (leftbits - 6)
             (out @ [b64_char (unat (drop_bit (leftbits - 6) leftchar AND 0x3F))])
      else (out, leftbits))"

declare b64_emit.simps [simp del]

text \<open>
  The outer loop \<open>for (; bin_len > 0; bin_len--, bin_data++) { leftchar = (leftchar << 8)
  | *bin_data; leftbits += 8; \<dots> }\<close>; it returns the loop's final state.
\<close>

fun b2a_loop :: "bytes \<Rightarrow> 32 word \<Rightarrow> nat \<Rightarrow> bytes \<Rightarrow> 32 word \<times> nat \<times> bytes" where
  "b2a_loop [] leftchar leftbits out = (leftchar, leftbits, out)"
| "b2a_loop (b # bs) leftchar leftbits out =
     (let leftchar' = push_bit 8 leftchar OR ucast b;
          (out', leftbits') = b64_emit leftchar' (leftbits + 8) out
      in b2a_loop bs leftchar' leftbits' out')"

text \<open>The tail: \<open>if (leftbits == 2) \<dots> else if (leftbits == 4) \<dots>\<close>.\<close>

definition b2a_finish :: "32 word \<Rightarrow> nat \<Rightarrow> bytes \<Rightarrow> bytes" where
  "b2a_finish leftchar leftbits out =
     (if leftbits = 2 then out @ [b64_char (unat (push_bit 4 (leftchar AND 3))), b64_pad, b64_pad]
      else if leftbits = 4 then out @ [b64_char (unat (push_bit 2 (leftchar AND 0xF))), b64_pad]
      else out)"

definition b2a_base64 :: "bytes \<Rightarrow> bytes" where
  "b2a_base64 bin_data =
     (case b2a_loop bin_data 0 0 [] of (leftchar, leftbits, out) \<Rightarrow> b2a_finish leftchar leftbits out)"

text \<open>\<open>base64.b64encode(s)\<close> with no \<open>altchars\<close>: \<open>binascii.b2a_base64(s, newline=False)\<close>.\<close>

definition b64encode :: "bytes \<Rightarrow> bytes" where
  "b64encode s = b2a_base64 s"

section \<open>The RFC 4648 reference\<close>

text \<open>Three bytes form a 24-bit group, read as four 6-bit values from the top.\<close>

definition b64_group :: "byte \<Rightarrow> byte \<Rightarrow> byte \<Rightarrow> 32 word" where
  "b64_group a b c = push_bit 16 (ucast a) OR push_bit 8 (ucast b) OR ucast c"

definition b64_sextets :: "32 word \<Rightarrow> nat list" where
  "b64_sextets g = [unat (drop_bit 18 g AND 0x3F), unat (drop_bit 12 g AND 0x3F),
                    unat (drop_bit 6 g AND 0x3F), unat (g AND 0x3F)]"

fun b64_ref :: "bytes \<Rightarrow> bytes" where
  "b64_ref (a # b # c # rest) = map b64_char (b64_sextets (b64_group a b c)) @ b64_ref rest"
| "b64_ref [a, b] = map b64_char (take 3 (b64_sextets (b64_group a b 0))) @ [b64_pad]"
| "b64_ref [a] = map b64_char (take 2 (b64_sextets (b64_group a 0 0))) @ [b64_pad, b64_pad]"
| "b64_ref [] = []"

text \<open>The decoder: the value of an alphabet character, and a group of four back to bytes.\<close>

definition b64_value :: "byte \<Rightarrow> nat option" where
  "b64_value c =
     (let n = unat c in
      if 65 \<le> n \<and> n \<le> 90 then Some (n - 65)
      else if 97 \<le> n \<and> n \<le> 122 then Some (n - 71)
      else if 48 \<le> n \<and> n \<le> 57 then Some (n + 4)
      else if n = 43 then Some 62
      else if n = 47 then Some 63
      else None)"

definition b64_ungroup :: "nat \<Rightarrow> nat \<Rightarrow> nat \<Rightarrow> nat \<Rightarrow> 32 word" where
  "b64_ungroup s0 s1 s2 s3 =
     push_bit 18 (of_nat s0) OR push_bit 12 (of_nat s1) OR push_bit 6 (of_nat s2) OR of_nat s3"

definition b64_bytes :: "32 word \<Rightarrow> bytes" where
  "b64_bytes g = [ucast (drop_bit 16 g), ucast (drop_bit 8 g), ucast g]"

fun b64_decode :: "bytes \<Rightarrow> bytes option" where
  "b64_decode [] = Some []"
| "b64_decode (c0 # c1 # c2 # c3 # rest) =
     (case (b64_value c0, b64_value c1) of
        (Some s0, Some s1) \<Rightarrow>
          if c2 = b64_pad \<and> c3 = b64_pad \<and> rest = []
          then Some (take 1 (b64_bytes (b64_ungroup s0 s1 0 0)))
          else (case b64_value c2 of
                  None \<Rightarrow> None
                | Some s2 \<Rightarrow>
                    if c3 = b64_pad \<and> rest = []
                    then Some (take 2 (b64_bytes (b64_ungroup s0 s1 s2 0)))
                    else (case b64_value c3 of
                            None \<Rightarrow> None
                          | Some s3 \<Rightarrow>
                              map_option (\<lambda>r. b64_bytes (b64_ungroup s0 s1 s2 s3) @ r)
                                (b64_decode rest)))
      | _ \<Rightarrow> None)"
| "b64_decode _ = None"

section \<open>Bit-level facts\<close>

text \<open>The masks of the C code are \<^const>\<open>take_bit\<close>; bits of a byte above 7 are clear.\<close>

lemma and_3F_take_bit: "(x :: 32 word) AND 0x3F = take_bit 6 x"
  by (simp add: take_bit_eq_mask mask_numeral)

lemma and_F_take_bit: "(x :: 32 word) AND 0xF = take_bit 4 x"
  by (simp add: take_bit_eq_mask mask_numeral)

lemma and_3_take_bit: "(x :: 32 word) AND 3 = take_bit 2 x"
  by (simp add: take_bit_eq_mask mask_numeral)

lemma bit_byte_high [simp]: "8 \<le> n \<Longrightarrow> bit (b :: byte) n = False"
  using bit_imp_le_length [of b n] by auto

lemma unat_take_bit_6_less: "unat (take_bit 6 (x :: 32 word)) < 64"
  using take_bit_nat_less_exp [of 6 "unat x"] by (simp add: unsigned_take_bit_eq)

lemmas b64_bit_simps = bit_simps b64_group_def and_F_take_bit and_3_take_bit

text \<open>
  What the accumulator holds after one, two and three bytes, read at the positions the
  C code reads, is the RFC group's 6-bit value at the matching position.  The bits of
  \<open>leftchar\<close> shifted out of the 32-bit word never matter: they are more than 12
  positions above the read window.
\<close>

lemma b64_acc_1:
  "take_bit 6 (drop_bit 2 (push_bit 8 lc OR ucast a)) = take_bit 6 (drop_bit 18 (b64_group a b c))"
  by (rule bit_word_eqI) (auto simp: b64_bit_simps)

lemma b64_acc_2:
  "take_bit 6 (drop_bit 4 (push_bit 8 (push_bit 8 lc OR ucast a) OR ucast b)) =
   take_bit 6 (drop_bit 12 (b64_group a b c))"
  by (rule bit_word_eqI) (auto simp: b64_bit_simps)

lemma b64_acc_3:
  "take_bit 6 (drop_bit 6 (push_bit 8 (push_bit 8 (push_bit 8 lc OR ucast a) OR ucast b) OR ucast c)) =
   take_bit 6 (drop_bit 6 (b64_group a b c))"
  by (rule bit_word_eqI) (auto simp: b64_bit_simps)

lemma b64_acc_4:
  "take_bit 6 (push_bit 8 (push_bit 8 (push_bit 8 lc OR ucast a) OR ucast b) OR ucast c) =
   take_bit 6 (b64_group a b c)"
  by (rule bit_word_eqI) (auto simp: b64_bit_simps)

lemma b64_pad_2:
  "push_bit 2 ((push_bit 8 (push_bit 8 lc OR ucast a) OR ucast b) AND 0xF) =
   take_bit 6 (drop_bit 6 (b64_group a b 0))"
  by (rule bit_word_eqI) (auto simp: b64_bit_simps)

lemma b64_pad_1:
  "push_bit 4 ((push_bit 8 lc OR ucast a) AND 3) = take_bit 6 (drop_bit 12 (b64_group a 0 0))"
  by (rule bit_word_eqI) (auto simp: b64_bit_simps)

lemma b64_group_low_zero:
  "take_bit 6 (b64_group a b 0) = 0"
  "take_bit 6 (b64_group a 0 0) = 0"
  "take_bit 6 (drop_bit 6 (b64_group a 0 0)) = 0"
  by (auto intro!: bit_word_eqI simp: bit_simps b64_group_def)

lemma b64_ungroup_sextets:
  "b64_ungroup (unat (take_bit 6 (drop_bit 18 g))) (unat (take_bit 6 (drop_bit 12 g)))
      (unat (take_bit 6 (drop_bit 6 g))) (unat (take_bit 6 g)) = take_bit 24 g"
proof (rule bit_word_eqI)
  fix n :: nat
  show "bit (b64_ungroup (unat (take_bit 6 (drop_bit 18 g))) (unat (take_bit 6 (drop_bit 12 g)))
      (unat (take_bit 6 (drop_bit 6 g))) (unat (take_bit 6 g))) n = bit (take_bit 24 g) n"
    by (cases "n < 6"; cases "n < 12"; cases "n < 18"; auto simp add: bit_simps b64_ungroup_def)
qed

lemma b64_bytes_group: "b64_bytes (take_bit 24 (b64_group a b c)) = [a, b, c]"
  unfolding b64_bytes_def
  by (auto intro!: bit_word_eqI simp: bit_simps b64_group_def)

section \<open>The alphabet\<close>

lemma b64_table_values:
  "list_all2 (\<lambda>c n. b64_value c = Some n \<and> c \<noteq> b64_pad \<and> c < 0x80) b64_table [0..<64]"
  by (simp add: b64_table_def b64_value_def b64_pad_def upt_rec)

lemma b64_char_props: "n < 64 \<Longrightarrow> b64_value (b64_char n) = Some n \<and> b64_char n \<noteq> b64_pad \<and> b64_char n < 0x80"
  using list_all2_nthD2 [OF b64_table_values, of n] by (simp add: b64_char_def)

lemma b64_value_char: "n < 64 \<Longrightarrow> b64_value (b64_char n) = Some n"
  using b64_char_props by blast

lemma b64_char_not_pad: "n < 64 \<Longrightarrow> b64_char n \<noteq> b64_pad"
  using b64_char_props by blast

lemma b64_char_ascii: "n < 64 \<Longrightarrow> b64_char n < 0x80"
  using b64_char_props by blast

lemma b64_sextets_less: "\<forall>s \<in> set (b64_sextets g). s < 64"
  by (simp add: b64_sextets_def and_3F_take_bit unat_take_bit_6_less)

section \<open>The loop, step by step\<close>

lemma b64_emit_8: "b64_emit lc 8 out = (out @ [b64_char (unat (take_bit 6 (drop_bit 2 lc)))], 2)"
  by (simp add: b64_emit.simps and_3F_take_bit)

lemma b64_emit_10: "b64_emit lc 10 out = (out @ [b64_char (unat (take_bit 6 (drop_bit 4 lc)))], 4)"
  by (simp add: b64_emit.simps and_3F_take_bit)

lemma b64_emit_12:
  "b64_emit lc 12 out =
     (out @ [b64_char (unat (take_bit 6 (drop_bit 6 lc))), b64_char (unat (take_bit 6 lc))], 0)"
  by (simp add: b64_emit.simps and_3F_take_bit)

lemma b64_emit_leftbits: "b64_emit lc lb out = (out', lb') \<Longrightarrow> lb' = lb mod 6"
proof (induction lc lb out rule: b64_emit.induct)
  case (1 lc lb out)
  show ?case
  proof (cases "6 \<le> lb")
    case True
    with "1.prems" "1.IH" show ?thesis
      by (simp add: b64_emit.simps [of lc lb out] le_mod_geq)
  next
    case False
    with "1.prems" show ?thesis
      by (simp add: b64_emit.simps [of lc lb out])
  qed
qed

lemma b2a_loop_Cons_emit:
  "b64_emit (push_bit 8 lc OR ucast b) (lb + 8) out = (out', lb') \<Longrightarrow>
   b2a_loop (b # bs) lc lb out = b2a_loop bs (push_bit 8 lc OR ucast b) lb' out'"
  by simp

lemma nat_8_sums: "(0::nat) + 8 = 8" "(2::nat) + 8 = 10" "(4::nat) + 8 = 12"
  by simp_all

lemma b2a_loop_ref:
  "(case b2a_loop bs lc 0 out of (l, k, r) \<Rightarrow> b2a_finish l k r) = out @ b64_ref bs"
proof (induction bs arbitrary: lc out rule: b64_ref.induct)
  case (1 a b c rest)
  let ?g = "b64_group a b c"
  let ?lc1 = "push_bit 8 lc OR ucast a"
  let ?lc2 = "push_bit 8 ?lc1 OR ucast b"
  let ?lc3 = "push_bit 8 ?lc2 OR ucast c"
  let ?ch = "\<lambda>k. b64_char (unat (take_bit 6 (drop_bit k ?g)))"
  have "b2a_loop (a # b # c # rest) lc 0 out = b2a_loop (b # c # rest) ?lc1 2 (out @ [?ch 18])"
    by (rule b2a_loop_Cons_emit) (simp only: nat_8_sums b64_emit_8 b64_acc_1 [of lc a b c])
  also have "\<dots> = b2a_loop (c # rest) ?lc2 4 (out @ [?ch 18, ?ch 12])"
    by (rule b2a_loop_Cons_emit)
      (simp only: nat_8_sums b64_emit_10 b64_acc_2 [of lc a b c] append_assoc append.simps)
  also have "\<dots> = b2a_loop rest ?lc3 0 (out @ [?ch 18, ?ch 12, ?ch 6, b64_char (unat (take_bit 6 ?g))])"
    by (rule b2a_loop_Cons_emit)
      (simp only: nat_8_sums b64_emit_12 b64_acc_3 [of lc a b c] b64_acc_4 [of lc a b c]
        append_assoc append.simps)
  finally show ?case
    by (simp add: "1.IH" b64_sextets_def and_3F_take_bit)
next
  case (2 a b)
  let ?g = "b64_group a b 0"
  let ?lc1 = "push_bit 8 lc OR ucast a"
  let ?ch = "\<lambda>k. b64_char (unat (take_bit 6 (drop_bit k ?g)))"
  have "b2a_loop [a, b] lc 0 out = b2a_loop [b] ?lc1 2 (out @ [?ch 18])"
    by (rule b2a_loop_Cons_emit) (simp only: nat_8_sums b64_emit_8 b64_acc_1 [of lc a b 0])
  also have "\<dots> = (push_bit 8 ?lc1 OR ucast b, 4, out @ [?ch 18, ?ch 12])"
    by (simp only: b2a_loop.simps(1) b2a_loop_Cons_emit nat_8_sums b64_emit_10
        b64_acc_2 [of lc a b 0] append_assoc append.simps)
  finally show ?case
    by (simp only: prod.case b2a_finish_def b64_pad_2) (simp add: b64_sextets_def and_3F_take_bit)
next
  case (3 a)
  have "b2a_loop [a] lc 0 out =
    (push_bit 8 lc OR ucast a, 2, out @ [b64_char (unat (take_bit 6 (drop_bit 18 (b64_group a 0 0))))])"
    by (simp only: b2a_loop.simps(1) b2a_loop_Cons_emit nat_8_sums b64_emit_8 b64_acc_1 [of lc a 0 0])
  then show ?case
    by (simp only: prod.case b2a_finish_def b64_pad_1) (simp add: b64_sextets_def and_3F_take_bit)
next
  case 4
  show ?case by (simp add: b2a_finish_def)
qed

lemma b64encode_ref: "b64encode bs = b64_ref bs"
  using b2a_loop_ref [of bs 0 "[]"] by (simp add: b64encode_def b2a_base64_def)

lemma b64_decode_ref: "b64_decode (b64_ref bs) = Some bs"
proof (induction bs rule: b64_ref.induct)
  case (1 a b c rest)
  let ?g = "b64_group a b c"
  have "b64_bytes (b64_ungroup (unat (take_bit 6 (drop_bit 18 ?g))) (unat (take_bit 6 (drop_bit 12 ?g)))
      (unat (take_bit 6 (drop_bit 6 ?g))) (unat (take_bit 6 ?g))) = [a, b, c]"
    by (simp only: b64_ungroup_sextets b64_bytes_group)
  with "1.IH" show ?case
    by (simp add: b64_sextets_def and_3F_take_bit unat_take_bit_6_less b64_value_char b64_char_not_pad)
next
  case (2 a b)
  let ?g = "b64_group a b 0"
  have "b64_bytes (b64_ungroup (unat (take_bit 6 (drop_bit 18 ?g))) (unat (take_bit 6 (drop_bit 12 ?g)))
      (unat (take_bit 6 (drop_bit 6 ?g))) 0) = [a, b, 0]"
    using b64_ungroup_sextets [of ?g] b64_bytes_group [of a b 0] by (simp add: b64_group_low_zero)
  then show ?case
    by (simp add: b64_sextets_def and_3F_take_bit unat_take_bit_6_less b64_value_char b64_char_not_pad)
next
  case (3 a)
  let ?g = "b64_group a 0 0"
  have "b64_bytes (b64_ungroup (unat (take_bit 6 (drop_bit 18 ?g))) (unat (take_bit 6 (drop_bit 12 ?g))) 0 0)
      = [a, 0, 0]"
    using b64_ungroup_sextets [of ?g] b64_bytes_group [of a 0 0] by (simp add: b64_group_low_zero)
  then show ?case
    by (simp add: b64_sextets_def and_3F_take_bit unat_take_bit_6_less b64_value_char b64_char_not_pad)
next
  case 4
  show ?case by simp
qed

lemma b64_ref_ascii: "\<forall>c \<in> set (b64_ref bs). c < 0x80"
proof (induction bs rule: b64_ref.induct)
  case (1 a b c rest)
  then show ?case
    using b64_sextets_less [of "b64_group a b c"] by (auto intro: b64_char_ascii)
next
  case (2 a b)
  then show ?case
    using b64_sextets_less [of "b64_group a b 0"]
    by (auto simp: b64_pad_def dest: in_set_takeD intro: b64_char_ascii)
next
  case (3 a)
  then show ?case
    using b64_sextets_less [of "b64_group a 0 0"]
    by (auto simp: b64_pad_def dest: in_set_takeD intro: b64_char_ascii)
qed simp

lemma b64encode_ascii: "\<forall>c \<in> set (b64encode bs). c < 0x80"
  using b64_ref_ascii [of bs] by (simp add: b64encode_ref)

lemma b2a_loop_leftbits_general:
  "lb < 6 \<Longrightarrow> fst (snd (b2a_loop bs lc lb out)) = (lb + 8 * length bs) mod 6"
proof (induction bs arbitrary: lc lb out)
  case Nil
  then show ?case by simp
next
  case (Cons b bs)
  obtain out' lb' where e: "b64_emit (push_bit 8 lc OR ucast b) (lb + 8) out = (out', lb')"
    by (cases "b64_emit (push_bit 8 lc OR ucast b) (lb + 8) out")
  then have "lb' = (lb + 8) mod 6"
    by (rule b64_emit_leftbits)
  with e Cons.IH [of lb'] show ?case
    by (simp add: b2a_loop_Cons_emit mod_add_left_eq add.assoc)
qed

section \<open>Correctness of the encoder\<close>

text \<open>
  The C routine computes the RFC 4648 encoding: \<open>base64.b64encode(s)\<close> equals
  the group-wise reference encoding of \<open>s\<close>, for every byte string.  The 32-bit
  accumulator overflows on long inputs, and this shows that no bit still to be emitted
  is lost when it does.
\<close>

theorem b64encode_eq_ref: "b64encode bs = b64_ref bs \<and> b2a_base64 bs = b64_ref bs"
  using b64encode_ref [of bs] by (simp add: b64encode_def)

text \<open>
  Round trip: decoding the output of \<open>base64.b64encode\<close> with the RFC decoder
  gives back exactly the encoded bytes.  This is what makes the JPEG buffer that
  \<open>image_to_base64\<close> sends readable by the model server.
\<close>

theorem b64_decode_b64encode: "b64_decode (b64encode bs) = Some bs"
  using b64_decode_ref [of bs] by (simp add: b64encode_ref)

text \<open>
  Size: the encoding of \<open>n\<close> bytes has \<open>4 * ceil(n / 3)\<close> characters, and all of
  them are ASCII (below 0x80), so \<open>.decode("utf-8")\<close> in \<open>image_to_base64\<close> reads
  one character per byte.
\<close>

theorem b64encode_length_ascii:
  "length (b64encode bs) = 4 * ((length bs + 2) div 3) \<and> list_all (\<lambda>c. c < 0x80) (b64encode bs)"
proof
  have "length (b64_ref bs) = 4 * ((length bs + 2) div 3)"
    by (induction bs rule: b64_ref.induct) (simp_all add: b64_sextets_def, presburger)
  then show "length (b64encode bs) = 4 * ((length bs + 2) div 3)"
    by (simp add: b64encode_ref)
  show "list_all (\<lambda>c. c < 0x80) (b64encode bs)"
    using b64encode_ascii [of bs] by (simp add: list_all_iff)
qed

text \<open>
  Bound on the accumulator: after the C loop has consumed \<open>n\<close> bytes,
  \<open>leftbits = 2 * (n mod 3)\<close>.  So \<open>leftbits\<close> is 0, 2 or 4 between bytes (at most
  12 bits are pending in the 32-bit \<open>leftchar\<close> after a shift), and the tail's two
  cases \<open>leftbits == 2\<close> and \<open>leftbits == 4\<close> are exactly the inputs whose length is
  not a multiple of three.
\<close>

theorem b2a_loop_leftbits: "fst (snd (b2a_loop bs 0 0 [])) = 2 * (length bs mod 3)"
proof -
  have "(8 * length bs) mod 6 = 2 * (length bs mod 3)"
    by presburger
  then show ?thesis
    using b2a_loop_leftbits_general [of 0 bs 0 "[]"] by simp
qed

end
