(* ===== verification/Normalizer.thy ===== *)
theory Normalizer
  imports PyRuntime Base64
begin

text \<open>
  The content normalizer of \<open>src/app.py\<close>: \<open>image_to_base64\<close> (lines 9--12) and
  \<open>extract_text_from_pdf\<close> (lines 15--20).  The libraries they call, PIL and PyPDF2,
  are not modelled; they form the interface \<open>('img, 'page) libs\<close>, a record of the
  four library operations the program uses, each returning its result or the exception
  it raises.  The images and the pages are of arbitrary types \<open>'img\<close>, \<open>'page\<close>: the
  lemmas hold for every library that has these operations.  \<open>base64.b64encode\<close> is the
  CPython routine of theory \<open>Base64\<close>.
\<close>

section \<open>The library interface\<close>

text \<open>
  \<^item> \<open>pil_open bs\<close>: \<open>Image.open(file)\<close>, which raises \<open>UnidentifiedImageError\<close> when
    the bytes are no image;
  \<^item> \<open>pil_save_jpeg img\<close>: \<open>image.save(buffered, format="JPEG")\<close> followed by
    \<open>buffered.getvalue()\<close>: the JPEG file written into the in-memory buffer, or the
    exception of the encoder (PIL raises \<open>OSError\<close> for a mode JPEG cannot hold, such
    as RGBA or P);
  \<^item> \<open>pdf_pages bs\<close>: \<open>PyPDF2.PdfReader(pdf_file).pages\<close>, in document order, or the
    \<open>PdfReadError\<close> of a byte stream that is no PDF;
  \<^item> \<open>page_extract_text p\<close>: \<open>page.extract_text()\<close>, a \<open>str\<close> or \<open>None\<close>.
\<close>

record ('img, 'page) libs =
  pil_open :: "bytes \<Rightarrow> exc + 'img"
  pil_save_jpeg :: "'img \<Rightarrow> exc + bytes"
  pdf_pages :: "bytes \<Rightarrow> exc + 'page list"
  page_extract_text :: "'page \<Rightarrow> exc + pystr option"

section \<open>Images\<close>

text \<open>
  \<open>bytes.decode("utf-8")\<close> on a byte string whose bytes are all below 0x80 maps each
  byte to the character of that code.  That is the only input it receives here: the
  output of \<open>base64.b64encode\<close> is ASCII (theorem \<open>b64encode_length_ascii\<close>).
\<close>

definition ascii_decode :: "bytes \<Rightarrow> pystr" where
  "ascii_decode bs = map (\<lambda>b. char_of (unat b)) bs"

definition image_to_base64 :: "('img \<Rightarrow> exc + bytes) \<Rightarrow> 'img \<Rightarrow> exc + pystr" where
  "image_to_base64 save_jpeg img =
     (case save_jpeg img of
        Inl e \<Rightarrow> Inl e
      | Inr buffered \<Rightarrow> Inr (ascii_decode (b64encode buffered)))"

text \<open>What the model server does with the string: it reads its bytes and base64-decodes them.\<close>

definition ascii_encode :: "pystr \<Rightarrow> bytes" where
  "ascii_encode s = map (\<lambda>c. of_nat (of_char c)) s"

section \<open>PDF text\<close>

text \<open>\<open>page.extract_text() or ""\<close>: \<open>None\<close> and the empty string give the empty string.\<close>

definition or_empty :: "pystr option \<Rightarrow> pystr" where
  "or_empty r = (case r of None \<Rightarrow> '''' | Some s \<Rightarrow> if s = [] then '''' else s)"

text \<open>The loop \<open>for page in pdf_reader.pages: text += page.extract_text() or ""\<close>.\<close>

fun extract_pages :: "('page \<Rightarrow> exc + pystr option) \<Rightarrow> 'page list \<Rightarrow> pystr \<Rightarrow> exc + pystr" where
  "extract_pages extract_text [] text = Inr text"
| "extract_pages extract_text (page # pages) text =
     (case extract_text page of
        Inl e \<Rightarrow> Inl e
      | Inr r \<Rightarrow> extract_pages extract_text pages (text @ or_empty r))"

definition extract_text_from_pdf :: "('img, 'page) libs \<Rightarrow> bytes \<Rightarrow> exc + pystr" where
  "extract_text_from_pdf lib pdf_file =
     (case pdf_pages lib pdf_file of
        Inl e \<Rightarrow> Inl e
      | Inr pages \<Rightarrow> extract_pages (page_extract_text lib) pages '''')"

text \<open>The specification of one page's contribution: its text, or nothing.\<close>

definition page_text :: "pystr option \<Rightarrow> pystr" where
  "page_text r = (case r of None \<Rightarrow> [] | Some s \<Rightarrow> s)"

section \<open>An example library\<close>

text \<open>
  A concrete library for the examples: images are represented by their size and pages
  by the text they yield; empty input is no image and no PDF.
\<close>

definition demo_lib :: "(nat, pystr option) libs" where
  "demo_lib =
     \<lparr>pil_open = (\<lambda>bs. if bs = [] then Inl (UnidentifiedImageError ''cannot identify image file'')
                       else Inr (length bs)),
      pil_save_jpeg = (\<lambda>n. if n = 0 then Inl (OSError ''cannot write empty image as JPEG'')
                            else Inr (replicate n 0xFF)),
      pdf_pages = (\<lambda>bs. if bs = [] then Inl (PdfReadError ''EOF marker not found'')
                        else Inr [Some ''Hello'', None, Some '' world'']),
      page_extract_text = (\<lambda>p. Inr p)\<rparr>"

section \<open>Lemmas\<close>

lemma or_empty_page_text [simp]: "or_empty r = page_text r"
  by (simp add: or_empty_def page_text_def split: option.splits)

lemma ascii_encode_decode: "list_all (\<lambda>b. b < 0x80) bs \<Longrightarrow> ascii_encode (ascii_decode bs) = bs"
proof (induction bs)
  case Nil
  then show ?case by (simp add: ascii_encode_def ascii_decode_def)
next
  case (Cons b bs)
  have "unat b < 128"
    using Cons.prems by (simp add: word_less_nat_alt)
  then have "(of_nat (of_char (char_of (unat b) :: char)) :: byte) = b"
    by (simp add: of_char_of)
  with Cons show ?case by (simp add: ascii_encode_def ascii_decode_def)
qed

lemma ascii_decode_ascii:
  "list_all (\<lambda>b. b < 0x80) bs \<Longrightarrow> list_all (\<lambda>c. of_char c < (128 :: nat)) (ascii_decode bs)"
proof (induction bs)
  case Nil
  then show ?case by (simp add: ascii_decode_def)
next
  case (Cons b bs)
  have "unat b < 128"
    using Cons.prems by (simp add: word_less_nat_alt)
  then have "of_char (char_of (unat b) :: char) < (128 :: nat)"
    by (simp add: of_char_of)
  with Cons show ?case by (simp add: ascii_decode_def)
qed

lemma extract_pages_Inr:
  "extract_pages ext pages acc = Inr t \<longleftrightarrow>
     (\<exists>rs. list_all2 (\<lambda>p r. ext p = Inr r) pages rs \<and> t = acc @ concat (map page_text rs))"
proof (induction pages arbitrary: acc)
  case Nil
  then show ?case by auto
next
  case (Cons p ps)
  show ?case
  proof (cases "ext p")
    case (Inl e)
    then show ?thesis by (auto simp: list_all2_Cons1)
  next
    case (Inr r)
    with Cons.IH [of "acc @ page_text r"] show ?thesis
      by (auto simp: list_all2_Cons1)
  qed
qed

lemma extract_pages_Inl:
  "extract_pages ext pages acc = Inl e \<longleftrightarrow>
     (\<exists>ps q qs rs. pages = ps @ q # qs \<and> list_all2 (\<lambda>p r. ext p = Inr r) ps rs \<and> ext q = Inl e)"
proof (induction pages arbitrary: acc)
  case Nil
  then show ?case by simp
next
  case (Cons p ps)
  show ?case
  proof (cases "ext p")
    case (Inl e')
    then show ?thesis
      by (auto simp: Cons_eq_append_conv list_all2_Cons1 intro!: exI [of _ "[]"])
  next
    case (Inr r)
    have "(\<exists>ps' q qs rs. p # ps = ps' @ q # qs \<and> list_all2 (\<lambda>p r. ext p = Inr r) ps' rs \<and> ext q = Inl e)
      \<longleftrightarrow> (\<exists>ps' q qs rs. ps = ps' @ q # qs \<and> list_all2 (\<lambda>p r. ext p = Inr r) ps' rs \<and> ext q = Inl e)"
    proof
      assume "\<exists>ps' q qs rs. p # ps = ps' @ q # qs \<and> list_all2 (\<lambda>p r. ext p = Inr r) ps' rs \<and> ext q = Inl e"
      then obtain ps' q qs rs where eq: "p # ps = ps' @ q # qs" and ok: "list_all2 (\<lambda>p r. ext p = Inr r) ps' rs"
        and bad: "ext q = Inl e" by blast
      with Inr obtain ps'' rs' where "ps' = p # ps''" "ps = ps'' @ q # qs" "list_all2 (\<lambda>p r. ext p = Inr r) ps'' rs'"
        by (cases ps') (auto simp: list_all2_Cons1)
      with bad show "\<exists>ps' q qs rs. ps = ps' @ q # qs \<and> list_all2 (\<lambda>p r. ext p = Inr r) ps' rs \<and> ext q = Inl e"
        by blast
    next
      assume "\<exists>ps' q qs rs. ps = ps' @ q # qs \<and> list_all2 (\<lambda>p r. ext p = Inr r) ps' rs \<and> ext q = Inl e"
      then obtain ps' q qs rs where "ps = ps' @ q # qs" "list_all2 (\<lambda>p r. ext p = Inr r) ps' rs"
        "ext q = Inl e" by blast
      with Inr have "p # ps = (p # ps') @ q # qs" "list_all2 (\<lambda>p r. ext p = Inr r) (p # ps') (r # rs)"
        by simp_all
      with \<open>ext q = Inl e\<close> show "\<exists>ps' q qs rs. p # ps = ps' @ q # qs \<and> list_all2 (\<lambda>p r. ext p = Inr r) ps' rs \<and> ext q = Inl e"
        by blast
    qed
    with Inr Cons.IH [of "acc @ page_text r"] show ?thesis
      by simp
  qed
qed

lemma image_to_base64_Inr:
  "image_to_base64 save img = Inr s \<longleftrightarrow> (\<exists>buf. save img = Inr buf \<and> s = ascii_decode (b64encode buf))"
  by (auto simp: image_to_base64_def split: sum.split)

lemma ascii_encode_b64: "ascii_encode (ascii_decode (b64encode buf)) = b64encode buf"
  using b64encode_length_ascii [of buf] by (simp add: ascii_encode_decode)

lemma image_to_base64_decode:
  "image_to_base64 save img = Inr s \<Longrightarrow> \<exists>buf. save img = Inr buf \<and> b64_decode (ascii_encode s) = Some buf"
  using image_to_base64_Inr [of save img s] by (auto simp: ascii_encode_b64 b64_decode_b64encode)

section \<open>Properties of the normalizer\<close>

text \<open>
  C8.  \<open>image_to_base64\<close> computes the RFC 4648 base64 encoding of the JPEG buffer
  PIL writes, as text; it raises exactly when the JPEG encoder raises, and nothing
  else (the UTF-8 decoding of the encoder's ASCII output cannot fail).
\<close>

theorem image_to_base64_rfc4648:
  "image_to_base64 save img =
     (case save img of Inl e \<Rightarrow> Inl e | Inr buf \<Rightarrow> Inr (ascii_decode (b64_ref buf)))"
  by (simp add: image_to_base64_def b64encode_ref split: sum.split)

text \<open>
  C9.  Round trip: when PIL writes the JPEG buffer \<open>buf\<close>, \<open>image_to_base64\<close>
  returns a string whose bytes base64-decode to exactly \<open>buf\<close>.
\<close>

theorem image_to_base64_roundtrip:
  assumes "save img = Inr buf"
  shows "\<exists>s. image_to_base64 save img = Inr s \<and> b64_decode (ascii_encode s) = Some buf"
  using assms by (simp add: image_to_base64_def ascii_encode_b64 b64_decode_b64encode)

theorem image_to_base64_roundtrip_witness:
  "(\<lambda>n::nat. Inr [0xFF, 0xFF, 0xFF, 0xFF] :: exc + bytes) 4 = Inr [0xFF, 0xFF, 0xFF, 0xFF] \<and>
   (\<exists>s. image_to_base64 (\<lambda>n::nat. Inr [0xFF, 0xFF, 0xFF, 0xFF]) 4 = Inr s \<and>
        b64_decode (ascii_encode s) = Some [0xFF, 0xFF, 0xFF, 0xFF])"
proof -
  have h: "(\<lambda>n::nat. Inr [0xFF, 0xFF, 0xFF, 0xFF] :: exc + bytes) 4 = Inr [0xFF, 0xFF, 0xFF, 0xFF]"
    by simp
  show ?thesis
    using image_to_base64_roundtrip [of "\<lambda>n::nat. Inr [0xFF, 0xFF, 0xFF, 0xFF]" 4, OF h] h by simp
qed

text \<open>
  C10.  Size and alphabet: the string returned for a JPEG buffer of \<open>n\<close> bytes has
  \<open>4 * ceil(n / 3)\<close> characters, all of them ASCII.
\<close>

theorem image_to_base64_length:
  assumes "image_to_base64 save img = Inr s"
  shows "\<exists>buf. save img = Inr buf \<and> length s = 4 * ((length buf + 2) div 3) \<and>
           list_all (\<lambda>c. of_char c < (128 :: nat)) s"
proof -
  from assms have "\<exists>buf. save img = Inr buf \<and> s = ascii_decode (b64encode buf)"
    by (simp only: image_to_base64_Inr)
  then obtain buf where buf: "save img = Inr buf" and s: "s = ascii_decode (b64encode buf)"
    by (elim exE conjE)
  have asc: "list_all (\<lambda>c. c < 0x80) (b64encode buf)" and len: "length (b64encode buf) = 4 * ((length buf + 2) div 3)"
    using b64encode_length_ascii [of buf] by simp_all
  have "list_all (\<lambda>c. of_char c < (128 :: nat)) (ascii_decode (b64encode buf))"
    using asc by (rule ascii_decode_ascii)
  moreover have "length s = length (b64encode buf)"
    using s by (simp add: ascii_decode_def)
  ultimately show ?thesis
    using buf s len by (intro exI [of _ buf]) simp
qed

theorem image_to_base64_length_witness:
  "image_to_base64 (\<lambda>n::nat. Inr [0xFF, 0xFF, 0xFF, 0xFF]) 4 = Inr (ascii_decode (b64encode [0xFF, 0xFF, 0xFF, 0xFF])) \<and>
   (\<exists>buf. (\<lambda>n::nat. Inr [0xFF, 0xFF, 0xFF, 0xFF] :: exc + bytes) 4 = Inr buf \<and>
      length (ascii_decode (b64encode [0xFF, 0xFF, 0xFF, 0xFF])) = 4 * ((length buf + 2) div 3) \<and>
      list_all (\<lambda>c. of_char c < (128 :: nat)) (ascii_decode (b64encode [0xFF, 0xFF, 0xFF, 0xFF])))"
proof -
  have h: "image_to_base64 (\<lambda>n::nat. Inr [0xFF, 0xFF, 0xFF, 0xFF]) 4 =
      Inr (ascii_decode (b64encode [0xFF, 0xFF, 0xFF, 0xFF]))"
    by (simp add: image_to_base64_def)
  from image_to_base64_length [OF h] obtain buf where
    "(\<lambda>n::nat. Inr [0xFF, 0xFF, 0xFF, 0xFF] :: exc + bytes) 4 = Inr buf"
    "length (ascii_decode (b64encode [0xFF, 0xFF, 0xFF, 0xFF])) = 4 * ((length buf + 2) div 3)"
    "list_all (\<lambda>c. of_char c < (128 :: nat)) (ascii_decode (b64encode [0xFF, 0xFF, 0xFF, 0xFF]))"
    by (elim exE conjE)
  with h show ?thesis by blast
qed

text \<open>
  C11.  \<open>extract_text_from_pdf\<close> succeeds exactly when the reader opens the PDF and
  every page yields its text, and the result is then the concatenation of the pages'
  texts in document order, a page with no extractable text (\<open>None\<close>) adding nothing.
\<close>

theorem extract_text_from_pdf_ok:
  "extract_text_from_pdf lib f = Inr t \<longleftrightarrow>
     (\<exists>pages rs. pdf_pages lib f = Inr pages \<and>
        list_all2 (\<lambda>p r. page_extract_text lib p = Inr r) pages rs \<and>
        t = concat (map (\<lambda>r. case r of None \<Rightarrow> [] | Some s \<Rightarrow> s) rs))"
proof (cases "pdf_pages lib f")
  case (Inl e)
  then show ?thesis by (simp add: extract_text_from_pdf_def)
next
  case (Inr pages)
  have "(\<lambda>r. case r of None \<Rightarrow> [] | Some s \<Rightarrow> s) = page_text"
    by (simp add: fun_eq_iff page_text_def)
  with Inr show ?thesis
    by (simp add: extract_text_from_pdf_def extract_pages_Inr)
qed

theorem extract_text_from_pdf_ok_witness:
  "extract_text_from_pdf demo_lib [1] = Inr ''Hello world'' \<and>
   (\<exists>pages rs. pdf_pages demo_lib [1] = Inr pages \<and>
      list_all2 (\<lambda>p r. page_extract_text demo_lib p = Inr r) pages rs \<and>
      ''Hello world'' = concat (map (\<lambda>r. case r of None \<Rightarrow> [] | Some s \<Rightarrow> s) rs))"
proof -
  have h: "extract_text_from_pdf demo_lib [1] = Inr ''Hello world''"
    by (simp add: extract_text_from_pdf_def demo_lib_def page_text_def)
  show ?thesis
    using extract_text_from_pdf_ok [of demo_lib "[1]" "''Hello world''"] h by simp
qed

text \<open>
  C12.  \<open>extract_text_from_pdf\<close> raises exactly the exception of the PDF reader, or
  else the exception of the first page whose extraction raises, after all earlier
  pages have yielded their text.
\<close>

theorem extract_text_from_pdf_error:
  "extract_text_from_pdf lib f = Inl e \<longleftrightarrow>
     pdf_pages lib f = Inl e \<or>
     (\<exists>pages ps q qs rs. pdf_pages lib f = Inr pages \<and> pages = ps @ q # qs \<and>
        list_all2 (\<lambda>p r. page_extract_text lib p = Inr r) ps rs \<and> page_extract_text lib q = Inl e)"
proof (cases "pdf_pages lib f")
  case (Inl e')
  then show ?thesis by (simp add: extract_text_from_pdf_def)
next
  case (Inr pages)
  then show ?thesis
    by (simp add: extract_text_from_pdf_def extract_pages_Inl)
qed

theorem extract_text_from_pdf_error_witness:
  "extract_text_from_pdf demo_lib [] = Inl (PdfReadError ''EOF marker not found'') \<and>
   (pdf_pages demo_lib [] = Inl (PdfReadError ''EOF marker not found'') \<or>
    (\<exists>pages ps q qs rs. pdf_pages demo_lib [] = Inr pages \<and> pages = ps @ q # qs \<and>
       list_all2 (\<lambda>p r. page_extract_text demo_lib p = Inr r) ps rs \<and>
       page_extract_text demo_lib q = Inl (PdfReadError ''EOF marker not found'')))"
proof -
  have h: "extract_text_from_pdf demo_lib [] = Inl (PdfReadError ''EOF marker not found'')"
    by (simp add: extract_text_from_pdf_def demo_lib_def)
  show ?thesis
    using extract_text_from_pdf_error [of demo_lib "[]" "PdfReadError ''EOF marker not found''"] h by simp
qed

end
