(* ===== verification/OllamaClient.thy ===== *)
theory OllamaClient
  imports PyRuntime
begin

text \<open>
  The model server is an external collaborator; the program reaches it through the
  three calls of the \<open>ollama\<close> client module it makes: \<open>ollama.list()\<close> (line 57),
  \<open>ollama.generate(model=..., prompt=...)\<close> (lines 62--65 and 76) and
  \<open>ollama.chat(model=..., messages=[...])\<close> (lines 70--73).  A call is a
  \<open>request\<close>; the server is any function \<open>server\<close> from requests to a reply
  or the exception the client raises (\<open>ConnectionError\<close> when nothing listens on
  127.0.0.1:11434, \<open>ResponseError\<close> for an error status).  It is deterministic, as the
  stubbed server of the spec's idempotence property is.  The client's effect on the
  world is the log of requests it has sent, in order: the state of the monad.
\<close>

record chat_message =
  role :: pystr
  content :: pystr
  images :: "pystr list"

datatype request =
    ListModels
  | Generate pystr pystr
  | Chat pystr "chat_message list"

type_synonym server = "request \<Rightarrow> exc + pyval"

type_synonym 'a client = "(request list, 'a) py"

text \<open>Sending a request records it, whatever the server answers.\<close>

definition ollama_request :: "server \<Rightarrow> request \<Rightarrow> pyval client" where
  "ollama_request srv r = (\<lambda>log. (srv r, log @ [r]))"

definition ollama_list :: "server \<Rightarrow> pyval client" where
  "ollama_list srv = ollama_request srv ListModels"

definition ollama_generate :: "server \<Rightarrow> pystr \<Rightarrow> pystr \<Rightarrow> pyval client" where
  "ollama_generate srv model prompt = ollama_request srv (Generate model prompt)"

definition ollama_chat :: "server \<Rightarrow> pystr \<Rightarrow> chat_message list \<Rightarrow> pyval client" where
  "ollama_chat srv model messages = ollama_request srv (Chat model messages)"

lemma ollama_request_apply [model_simps]: "ollama_request srv r log = (srv r, log @ [r])"
  by (simp add: ollama_request_def)

lemmas ollama_calls [model_simps] = ollama_list_def ollama_generate_def ollama_chat_def

end
