(* ===== verification/Gateway.thy ===== *)
theory Gateway
  imports Normalizer OllamaClient
begin

text \<open>
  The response gateway: \<open>get_ollama_response(text, file=None)\<close> of \<open>src/app.py\<close>
  (lines 55--79).  Its body runs in the client monad of theory \<open>OllamaClient\<close>: first
  the liveness probe \<open>ollama.list()\<close>, then one of three branches (no file, a PDF, an
  image), each of which may raise; the \<open>try/except Exception\<close> around it turns every
  exception into the error string and no preview.  The uploaded file is the
  \<open>upload\<close> record: Streamlit's \<open>UploadedFile\<close>, of which the code reads the
  declared MIME type \<open>file.type\<close> and the content.
\<close>

section \<open>Data\<close>

record upload =
  file_name :: pystr
  file_type :: pystr
  file_bytes :: bytes

text \<open>
  The second component of the returned pair: \<open>None\<close>, the PDF preview \<open>str\<close>, or the
  PIL image itself.
\<close>

datatype 'img extra = NoExtra | TextExtra pystr | ImageExtra 'img

definition llava :: pystr where
  "llava = ''llava''"

definition newline :: char where
  "newline = CHR 0x0A"

section \<open>The three branches\<close>

text \<open>\<open>f"{text}\n\nPDF Content:\n{pdf_text[:2000]}"\<close> (line 64).\<close>

definition pdf_prompt :: "pystr \<Rightarrow> pystr \<Rightarrow> pystr" where
  "pdf_prompt text pdf_text = text @ [newline, newline] @ ''PDF Content:'' @ [newline] @ take 2000 pdf_text"

text \<open>\<open>pdf_text[:500] + "..." if len(pdf_text) > 500 else pdf_text\<close> (line 66).\<close>

definition pdf_preview :: "pystr \<Rightarrow> pystr" where
  "pdf_preview pdf_text = (if 500 < length pdf_text then take 500 pdf_text @ ''...'' else pdf_text)"

text \<open>\<open>f"Error: {str(e)}. Is Ollama running on 127.0.0.1:11434?"\<close> (line 79).\<close>

definition error_text :: "exc \<Rightarrow> pystr" where
  "error_text e = ''Error: '' @ exc_str e @ ''. Is Ollama running on 127.0.0.1:11434?''"

text \<open>No file (lines 76--77).\<close>

definition respond_text :: "server \<Rightarrow> pystr \<Rightarrow> (pyval \<times> 'img extra) client" where
  "respond_text srv text =
     py_bind (ollama_generate srv llava text) (\<lambda>response.
     py_bind (py_lift (py_getitem response ''response'')) (\<lambda>r.
     py_return (r, NoExtra)))"

text \<open>A PDF (lines 61--66).\<close>

definition respond_pdf ::
  "('img, 'page) libs \<Rightarrow> server \<Rightarrow> pystr \<Rightarrow> upload \<Rightarrow> (pyval \<times> 'img extra) client" where
  "respond_pdf lib srv text file =
     py_bind (py_lift (extract_text_from_pdf lib (file_bytes file))) (\<lambda>pdf_text.
     py_bind (ollama_generate srv llava (pdf_prompt text pdf_text)) (\<lambda>response.
     py_bind (py_lift (py_getitem response ''response'')) (\<lambda>r.
     py_return (r, TextExtra (pdf_preview pdf_text)))))"

text \<open>\<open>{"role": "user", "content": text, "images": [img_base64]}\<close> (line 72).\<close>

definition image_message :: "pystr \<Rightarrow> pystr \<Rightarrow> chat_message" where
  "image_message text img_base64 = \<lparr>role = ''user'', content = text, images = [img_base64]\<rparr>"

text \<open>Any other file is opened as an image (lines 68--74).\<close>

definition respond_image ::
  "('img, 'page) libs \<Rightarrow> server \<Rightarrow> pystr \<Rightarrow> upload \<Rightarrow> (pyval \<times> 'img extra) client" where
  "respond_image lib srv text file =
     py_bind (py_lift (pil_open lib (file_bytes file))) (\<lambda>img.
     py_bind (py_lift (image_to_base64 (pil_save_jpeg lib) img)) (\<lambda>img_base64.
     py_bind (ollama_chat srv llava [image_message text img_base64]) (\<lambda>response.
     py_bind (py_lift (py_getitem response ''message'')) (\<lambda>message.
     py_bind (py_lift (py_getitem message ''content'')) (\<lambda>c.
     py_return (c, ImageExtra img))))))"

section \<open>The handler\<close>

text \<open>The body of the \<open>try\<close> (lines 57--77): the probe, then the branch on the file.\<close>

definition respond ::
  "('img, 'page) libs \<Rightarrow> server \<Rightarrow> pystr \<Rightarrow> upload option \<Rightarrow> (pyval \<times> 'img extra) client" where
  "respond lib srv text file =
     py_bind (ollama_list srv) (\<lambda>_.
       case file of
         None \<Rightarrow> respond_text srv text
       | Some f \<Rightarrow>
           if file_type f = ''application/pdf'' then respond_pdf lib srv text f
           else respond_image lib srv text f)"

definition get_ollama_response ::
  "('img, 'page) libs \<Rightarrow> server \<Rightarrow> pystr \<Rightarrow> upload option \<Rightarrow> request list \<Rightarrow>
     (pyval \<times> 'img extra) \<times> request list" where
  "get_ollama_response lib srv text file =
     py_catch (respond lib srv text file) (\<lambda>e. (PStr (error_text e), NoExtra))"

text \<open>
  The requests one call of the handler may send: the probe alone, or the probe and one
  generation or chat call to \<open>llava\<close> with a single user message.
\<close>

fun request_trace_ok :: "request list \<Rightarrow> bool" where
  "request_trace_ok [ListModels] = True"
| "request_trace_ok [ListModels, Generate m p] = (m = llava)"
| "request_trace_ok [ListModels, Chat m ms] = (m = llava \<and> length ms = 1)"
| "request_trace_ok _ = False"

section \<open>Example collaborators\<close>

text \<open>
  Two servers on which the examples below run the handler, with the library
  \<open>demo_lib\<close> of theory \<open>Normalizer\<close>: the first server answers every call, the
  second is not reachable.
\<close>

definition demo_server :: server where
  "demo_server r =
     (case r of
        ListModels \<Rightarrow> Inr (PDict [(''models'', PList [])])
      | Generate m p \<Rightarrow> Inr (PDict [(''response'', PStr ''an answer'')])
      | Chat m ms \<Rightarrow> Inr (PDict [(''message'', PDict [(''content'', PStr ''a picture'')])]))"

definition down_server :: server where
  "down_server r = Inl (ConnectionError ''Failed to connect to Ollama'')"

section \<open>Lemmas\<close>

lemmas gateway_defs = get_ollama_response_def respond_def respond_text_def respond_pdf_def
  respond_image_def py_catch_def py_bind_def py_lift_def py_return_def ollama_request_def
  ollama_calls

lemma llava_literal [simp]: "llava = ''llava''"
  by (simp add: llava_def)

text \<open>Which requests each branch sends, and what it returns.\<close>

lemma respond_text_run:
  "respond_text srv text log =
     ((case srv (Generate llava text) of
         Inl e \<Rightarrow> Inl e
       | Inr response \<Rightarrow> map_sum id (\<lambda>r. (r, NoExtra)) (py_getitem response ''response'')),
      log @ [Generate llava text])"
  by (simp add: respond_text_def py_bind_def py_lift_def py_return_def ollama_request_def
      ollama_calls split: sum.split)

lemma respond_pdf_run:
  "respond_pdf lib srv text f log =
     (case extract_text_from_pdf lib (file_bytes f) of
        Inl e \<Rightarrow> (Inl e, log)
      | Inr t \<Rightarrow>
          ((case srv (Generate llava (pdf_prompt text t)) of
              Inl e \<Rightarrow> Inl e
            | Inr response \<Rightarrow> map_sum id (\<lambda>r. (r, TextExtra (pdf_preview t))) (py_getitem response ''response'')),
           log @ [Generate llava (pdf_prompt text t)]))"
  by (simp add: respond_pdf_def py_bind_def py_lift_def py_return_def ollama_request_def
      ollama_calls split: sum.split)

lemma respond_image_run:
  "respond_image lib srv text f log =
     (case pil_open lib (file_bytes f) of
        Inl e \<Rightarrow> (Inl e, log)
      | Inr img \<Rightarrow>
          (case image_to_base64 (pil_save_jpeg lib) img of
             Inl e \<Rightarrow> (Inl e, log)
           | Inr b64 \<Rightarrow>
               ((case srv (Chat llava [image_message text b64]) of
                   Inl e \<Rightarrow> Inl e
                 | Inr response \<Rightarrow>
                     (case py_getitem response ''message'' of
                        Inl e \<Rightarrow> Inl e
                      | Inr m \<Rightarrow> map_sum id (\<lambda>c. (c, ImageExtra img)) (py_getitem m ''content''))),
                log @ [Chat llava [image_message text b64]])))"
  by (simp add: respond_image_def py_bind_def py_lift_def py_return_def
      ollama_request_def ollama_calls split: sum.split)

lemma respond_run:
  "respond lib srv text file log =
     (case srv ListModels of
        Inl e \<Rightarrow> (Inl e, log @ [ListModels])
      | Inr _ \<Rightarrow>
          (case file of
             None \<Rightarrow> respond_text srv text (log @ [ListModels])
           | Some f \<Rightarrow>
               if file_type f = ''application/pdf'' then respond_pdf lib srv text f (log @ [ListModels])
               else respond_image lib srv text f (log @ [ListModels])))"
  by (simp add: respond_def py_bind_def ollama_request_def ollama_calls
      split: sum.split option.split if_split)

lemmas respond_runs = respond_run respond_text_run respond_pdf_run respond_image_run

text \<open>Every run of the body appends a trace of the allowed shape to the log.\<close>

lemma respond_trace:
  "\<exists>t. snd (respond lib srv text file log) = log @ t \<and> request_trace_ok t"
proof (cases "srv ListModels")
  case (Inl e)
  then show ?thesis by (simp add: respond_run)
next
  case (Inr v)
  show ?thesis
  proof (cases "file")
    case None
    with Inr show ?thesis by (simp add: respond_run respond_text_run)
  next
    case (Some f)
    with Inr show ?thesis
      by (simp add: respond_run respond_pdf_run respond_image_run
          split: sum.split if_split)
  qed
qed

lemma get_ollama_response_run:
  "get_ollama_response lib srv text file log =
     (case respond lib srv text file log of
        (Inl e, log') \<Rightarrow> ((PStr (error_text e), NoExtra), log')
      | (Inr r, log') \<Rightarrow> (r, log'))"
  by (simp add: get_ollama_response_def py_catch_def)

lemma get_ollama_response_sent:
  "snd (get_ollama_response lib srv text file log) = snd (respond lib srv text file log)"
  by (simp add: get_ollama_response_run split: prod.split sum.split)

lemma pdf_prompt_literal:
  "pdf_prompt text t = text @ [CHR 0x0A, CHR 0x0A] @ ''PDF Content:'' @ [CHR 0x0A] @ take 2000 t"
  by (simp add: pdf_prompt_def newline_def)

lemma pdf_preview_length: "length (pdf_preview t) \<le> 503"
  by (simp add: pdf_preview_def)

text \<open>A successful run of each branch: what it read, sent and returned.\<close>

lemma respond_text_Inr:
  "fst (respond_text srv text log) = Inr (r, x) \<Longrightarrow>
     x = NoExtra \<and> (\<exists>reply. srv (Generate llava text) = Inr reply \<and> py_getitem reply ''response'' = Inr r) \<and>
     snd (respond_text srv text log) = log @ [Generate llava text]"
  by (auto simp: respond_text_run split: sum.split_asm)

lemma respond_pdf_Inr:
  "fst (respond_pdf lib srv text f log) = Inr (r, x) \<Longrightarrow>
     \<exists>t reply. extract_text_from_pdf lib (file_bytes f) = Inr t \<and>
       srv (Generate llava (pdf_prompt text t)) = Inr reply \<and> py_getitem reply ''response'' = Inr r \<and>
       x = TextExtra (pdf_preview t) \<and> snd (respond_pdf lib srv text f log) = log @ [Generate llava (pdf_prompt text t)]"
  by (auto simp: respond_pdf_run split: sum.split_asm)

lemma respond_image_Inr:
  "fst (respond_image lib srv text f log) = Inr (r, x) \<Longrightarrow>
     \<exists>img b64 reply m. pil_open lib (file_bytes f) = Inr img \<and>
       image_to_base64 (pil_save_jpeg lib) img = Inr b64 \<and>
       srv (Chat llava [image_message text b64]) = Inr reply \<and>
       py_getitem reply ''message'' = Inr m \<and> py_getitem m ''content'' = Inr r \<and>
       x = ImageExtra img \<and> snd (respond_image lib srv text f log) = log @ [Chat llava [image_message text b64]]"
  by (auto simp: respond_image_run split: sum.split_asm)

text \<open>A successful run of the body went through the probe and one branch.\<close>

lemma respond_Inr_cases:
  assumes "fst (respond lib srv text file log) = Inr rx"
  obtains (no_file) "file = None"
      "respond lib srv text file log = respond_text srv text (log @ [ListModels])"
  | (pdf) f where "file = Some f" "file_type f = ''application/pdf''"
      "respond lib srv text file log = respond_pdf lib srv text f (log @ [ListModels])"
  | (image) f where "file = Some f" "file_type f \<noteq> ''application/pdf''"
      "respond lib srv text file log = respond_image lib srv text f (log @ [ListModels])"
proof -
  obtain v where v: "srv ListModels = Inr v"
    using assms by (cases "srv ListModels") (auto simp: respond_run)
  show thesis
  proof (cases "file")
    case None
    with v show thesis by (intro no_file) (simp_all add: respond_run)
  next
    case (Some f)
    show thesis
    proof (cases "file_type f = ''application/pdf''")
      case True
      with Some v show thesis by (intro pdf [of f]) (simp_all add: respond_run)
    next
      case False
      with Some v show thesis by (intro image [of f]) (simp_all add: respond_run)
    qed
  qed
qed

lemma get_ollama_response_Inr:
  "fst (respond lib srv text file log) = Inr rx \<Longrightarrow>
     get_ollama_response lib srv text file log = (rx, snd (respond lib srv text file log))"
  by (cases "respond lib srv text file log") (simp add: get_ollama_response_run)

lemma get_ollama_response_Inl:
  "fst (respond lib srv text file log) = Inl e \<Longrightarrow>
     get_ollama_response lib srv text file log = ((PStr (error_text e), NoExtra), snd (respond lib srv text file log))"
  by (cases "respond lib srv text file log") (simp add: get_ollama_response_run)

text \<open>
  What the handler returns: an error string, or a field read from the reply of the one
  model call it made after the probe.
\<close>

lemma respond_Inr_reply:
  assumes r: "fst (respond lib srv text file log) = Inr (r, x)"
  shows "\<exists>req reply. snd (respond lib srv text file log) = log @ [ListModels, req] \<and> srv req = Inr reply \<and>
      (py_getitem reply ''response'' = Inr r \<or>
       (\<exists>m. py_getitem reply ''message'' = Inr m \<and> py_getitem m ''content'' = Inr r))"
  using r
proof (cases rule: respond_Inr_cases)
  case no_file
  with r show ?thesis by (fastforce dest: respond_text_Inr)
next
  case (pdf f)
  with r show ?thesis by (fastforce dest: respond_pdf_Inr)
next
  case (image f)
  with r show ?thesis by (fastforce dest: respond_image_Inr)
qed

lemma respond_Inr_extra:
  assumes r: "fst (respond lib srv text file log) = Inr (r, x)"
  shows "(file = None \<and> x = NoExtra) \<or>
    (\<exists>f t. file = Some f \<and> file_type f = ''application/pdf'' \<and>
       extract_text_from_pdf lib (file_bytes f) = Inr t \<and> x = TextExtra (pdf_preview t)) \<or>
    (\<exists>f img. file = Some f \<and> file_type f \<noteq> ''application/pdf'' \<and>
       pil_open lib (file_bytes f) = Inr img \<and> x = ImageExtra img)"
  using r
proof (cases rule: respond_Inr_cases)
  case no_file
  with r show ?thesis by (auto dest: respond_text_Inr)
next
  case (pdf f)
  with r show ?thesis by (fastforce dest: respond_pdf_Inr)
next
  case (image f)
  with r show ?thesis by (fastforce dest: respond_image_Inr)
qed

section \<open>Properties of the handler\<close>

text \<open>
  C1.  A prompt with no file: the handler sends the probe and exactly one text
  completion of \<open>llava\<close> on the prompt itself, and returns the reply's
  \<open>response\<close> field unchanged, with no preview.
\<close>

theorem get_ollama_response_text_only:
  assumes "srv ListModels = Inr v"
    and "srv (Generate ''llava'' text) = Inr reply"
    and "py_getitem reply ''response'' = Inr out"
  shows "get_ollama_response lib srv text None log = ((out, NoExtra), log @ [ListModels, Generate ''llava'' text])"
  using assms by (simp add: get_ollama_response_run respond_run respond_text_run)

theorem get_ollama_response_text_only_witness:
  "demo_server ListModels = Inr (PDict [(''models'', PList [])]) \<and>
   demo_server (Generate ''llava'' ''Hi'') = Inr (PDict [(''response'', PStr ''an answer'')]) \<and>
   py_getitem (PDict [(''response'', PStr ''an answer'')]) ''response'' = Inr (PStr ''an answer'') \<and>
   get_ollama_response demo_lib demo_server ''Hi'' None [] =
     ((PStr ''an answer'', NoExtra), [ListModels, Generate ''llava'' ''Hi''])"
proof -
  have h1: "demo_server ListModels = Inr (PDict [(''models'', PList [])])"
    and h2: "demo_server (Generate ''llava'' ''Hi'') = Inr (PDict [(''response'', PStr ''an answer'')])"
    and h3: "py_getitem (PDict [(''response'', PStr ''an answer'')]) ''response'' = Inr (PStr ''an answer'')"
    by (simp_all add: demo_server_def)
  show ?thesis
    using h1 h2 h3 get_ollama_response_text_only [OF h1 h2 h3, of demo_lib "[]"] by simp
qed

text \<open>
  C2.  When the liveness probe \<open>ollama.list()\<close> fails, for every prompt and every
  file (none, PDF or image), the handler returns the string
  \<open>"Error: <str(e)>. Is Ollama running on 127.0.0.1:11434?"\<close> and no preview, and
  it has sent no request beyond the probe.
\<close>

theorem get_ollama_response_probe_failure:
  assumes "srv ListModels = Inl e"
  shows "get_ollama_response lib srv text file log =
    ((PStr (''Error: '' @ exc_str e @ ''. Is Ollama running on 127.0.0.1:11434?''), NoExtra),
     log @ [ListModels])"
  using assms by (simp add: get_ollama_response_run respond_run error_text_def)

theorem get_ollama_response_probe_failure_witness:
  "down_server ListModels = Inl (ConnectionError ''Failed to connect to Ollama'') \<and>
   get_ollama_response demo_lib down_server ''Hi'' (Some \<lparr>file_name = ''a.pdf'', file_type = ''application/pdf'', file_bytes = [1]\<rparr>) [] =
    ((PStr (''Error: Failed to connect to Ollama. Is Ollama running on 127.0.0.1:11434?''), NoExtra),
     [ListModels])"
proof -
  have h: "down_server ListModels = Inl (ConnectionError ''Failed to connect to Ollama'')"
    by (simp add: down_server_def)
  show ?thesis
    using get_ollama_response_probe_failure [of down_server "ConnectionError ''Failed to connect to Ollama''"
        demo_lib "''Hi''" "Some \<lparr>file_name = ''a.pdf'', file_type = ''application/pdf'', file_bytes = [1]\<rparr>"
        "[]", OF h] h
    by simp
qed

text \<open>
  C3.  A PDF upload: the text sent to the model is the prompt, a blank line,
  \<open>PDF Content:\<close> and the extracted text cut at 2000 characters: the whole text when
  it has at most 2000 characters, its first 2000 characters otherwise.  Exactly one
  completion request follows the probe.
\<close>

theorem get_ollama_response_pdf_prompt:
  assumes "srv ListModels = Inr v"
    and "file_type f = ''application/pdf''"
    and "extract_text_from_pdf lib (file_bytes f) = Inr t"
  shows "\<exists>p. snd (get_ollama_response lib srv text (Some f) log) =
           log @ [ListModels, Generate ''llava'' (text @ [CHR 0x0A, CHR 0x0A] @ ''PDF Content:'' @ [CHR 0x0A] @ p)] \<and>
           (length t \<le> 2000 \<longrightarrow> p = t) \<and>
           (2000 < length t \<longrightarrow> length p = 2000 \<and> t = p @ drop 2000 t)"
proof -
  have "snd (get_ollama_response lib srv text (Some f) log) =
          log @ [ListModels, Generate ''llava'' (pdf_prompt text t)]"
    using assms by (simp add: get_ollama_response_run respond_run respond_pdf_run split: sum.split)
  then show ?thesis
    by (intro exI [of _ "take 2000 t"]) (simp add: pdf_prompt_literal)
qed

theorem get_ollama_response_pdf_prompt_witness:
  "demo_server ListModels = Inr (PDict [(''models'', PList [])]) \<and>
   file_type \<lparr>file_name = ''a.pdf'', file_type = ''application/pdf'', file_bytes = [1]\<rparr> = ''application/pdf'' \<and>
   extract_text_from_pdf demo_lib [1] = Inr ''Hello world'' \<and>
   (\<exists>p. snd (get_ollama_response demo_lib demo_server ''Sum up'' (Some \<lparr>file_name = ''a.pdf'', file_type = ''application/pdf'', file_bytes = [1]\<rparr>) []) =
           [ListModels, Generate ''llava'' (''Sum up'' @ [CHR 0x0A, CHR 0x0A] @ ''PDF Content:'' @ [CHR 0x0A] @ p)] \<and>
           (length ''Hello world'' \<le> 2000 \<longrightarrow> p = ''Hello world'') \<and>
           (2000 < length ''Hello world'' \<longrightarrow> length p = 2000 \<and> ''Hello world'' = p @ drop 2000 ''Hello world''))"
proof -
  let ?f = "\<lparr>file_name = ''a.pdf'', file_type = ''application/pdf'', file_bytes = [1 :: byte]\<rparr>"
  have h1: "demo_server ListModels = Inr (PDict [(''models'', PList [])])"
    by (simp add: demo_server_def)
  have h2: "file_type ?f = ''application/pdf''"
    by simp
  have h3: "extract_text_from_pdf demo_lib (file_bytes ?f) = Inr ''Hello world''"
    by (simp add: extract_text_from_pdf_def demo_lib_def page_text_def)
  show ?thesis
    using get_ollama_response_pdf_prompt [of demo_server "PDict [(''models'', PList [])]" ?f demo_lib
        "''Hello world''" "''Sum up''" "[]", OF h1 h2 h3] h1 h2 h3
    by simp
qed

text \<open>
  C4.  The PDF preview: when the model answers, the handler returns the reply's
  \<open>response\<close> field and, as preview, the first 500 characters of the extracted text
  followed by \<open>...\<close> when the text is longer than 500 characters, and the whole text
  with no marker otherwise.
\<close>

theorem get_ollama_response_pdf_preview:
  assumes "srv ListModels = Inr v"
    and "file_type f = ''application/pdf''"
    and "extract_text_from_pdf lib (file_bytes f) = Inr t"
    and "srv (Generate ''llava'' (pdf_prompt text t)) = Inr reply"
    and "py_getitem reply ''response'' = Inr out"
  shows "fst (get_ollama_response lib srv text (Some f) log) =
           (out, TextExtra (if 500 < length t then take 500 t @ ''...'' else t))"
  using assms by (simp add: get_ollama_response_run respond_run respond_pdf_run pdf_preview_def)

theorem get_ollama_response_pdf_preview_witness:
  "demo_server ListModels = Inr (PDict [(''models'', PList [])]) \<and>
   file_type \<lparr>file_name = ''a.pdf'', file_type = ''application/pdf'', file_bytes = [1]\<rparr> = ''application/pdf'' \<and>
   extract_text_from_pdf demo_lib [1] = Inr ''Hello world'' \<and>
   demo_server (Generate ''llava'' (pdf_prompt ''Sum up'' ''Hello world'')) = Inr (PDict [(''response'', PStr ''an answer'')]) \<and>
   py_getitem (PDict [(''response'', PStr ''an answer'')]) ''response'' = Inr (PStr ''an answer'') \<and>
   fst (get_ollama_response demo_lib demo_server ''Sum up''
          (Some \<lparr>file_name = ''a.pdf'', file_type = ''application/pdf'', file_bytes = [1]\<rparr>) []) =
     (PStr ''an answer'', TextExtra ''Hello world'')"
proof -
  let ?f = "\<lparr>file_name = ''a.pdf'', file_type = ''application/pdf'', file_bytes = [1 :: byte]\<rparr>"
  have h1: "demo_server ListModels = Inr (PDict [(''models'', PList [])])"
    by (simp add: demo_server_def)
  have h2: "file_type ?f = ''application/pdf''"
    by simp
  have h3: "extract_text_from_pdf demo_lib (file_bytes ?f) = Inr ''Hello world''"
    by (simp add: extract_text_from_pdf_def demo_lib_def page_text_def)
  have h4: "demo_server (Generate ''llava'' (pdf_prompt ''Sum up'' ''Hello world'')) =
      Inr (PDict [(''response'', PStr ''an answer'')])"
    by (simp add: demo_server_def)
  have h5: "py_getitem (PDict [(''response'', PStr ''an answer'')]) ''response'' = Inr (PStr ''an answer'')"
    by simp
  show ?thesis
    using get_ollama_response_pdf_preview [of demo_server "PDict [(''models'', PList [])]" ?f demo_lib
        "''Hello world''" "''Sum up''" "PDict [(''response'', PStr ''an answer'')]" "PStr ''an answer''" "[]",
        OF h1 h2 h3 h4 h5] h1 h2 h3 h4 h5
    by simp
qed

text \<open>
  C6.  A file that cannot be normalized (a PDF whose text cannot be extracted, a file
  PIL cannot open, an image its JPEG encoder rejects) yields the error string of that
  exception and no preview, and no request follows the probe: the model is never
  called with broken content.
\<close>

theorem get_ollama_response_normalizer_failure:
  assumes "srv ListModels = Inr v"
    and "(file_type f = ''application/pdf'' \<and> extract_text_from_pdf lib (file_bytes f) = Inl e) \<or>
         (file_type f \<noteq> ''application/pdf'' \<and>
           (pil_open lib (file_bytes f) = Inl e \<or>
            (\<exists>img. pil_open lib (file_bytes f) = Inr img \<and> pil_save_jpeg lib img = Inl e)))"
  shows "get_ollama_response lib srv text (Some f) log = ((PStr (error_text e), NoExtra), log @ [ListModels])"
  using assms
  by (auto simp: get_ollama_response_run respond_run respond_pdf_run respond_image_run image_to_base64_def)

theorem get_ollama_response_normalizer_failure_witness:
  "demo_server ListModels = Inr (PDict [(''models'', PList [])]) \<and>
   (file_type \<lparr>file_name = ''x.png'', file_type = ''image/png'', file_bytes = []\<rparr> = ''application/pdf'' \<and>
      extract_text_from_pdf demo_lib [] = Inl (UnidentifiedImageError ''cannot identify image file'') \<or>
    file_type \<lparr>file_name = ''x.png'', file_type = ''image/png'', file_bytes = []\<rparr> \<noteq> ''application/pdf'' \<and>
      (pil_open demo_lib [] = Inl (UnidentifiedImageError ''cannot identify image file'') \<or>
       (\<exists>img. pil_open demo_lib [] = Inr img \<and>
          pil_save_jpeg demo_lib img = Inl (UnidentifiedImageError ''cannot identify image file'')))) \<and>
   get_ollama_response demo_lib demo_server ''What is this?''
     (Some \<lparr>file_name = ''x.png'', file_type = ''image/png'', file_bytes = []\<rparr>) [] =
   ((PStr (error_text (UnidentifiedImageError ''cannot identify image file'')), NoExtra), [ListModels])"
proof -
  let ?f = "\<lparr>file_name = ''x.png'', file_type = ''image/png'', file_bytes = [] :: bytes\<rparr>"
  let ?e = "UnidentifiedImageError ''cannot identify image file''"
  have h1: "demo_server ListModels = Inr (PDict [(''models'', PList [])])"
    by (simp add: demo_server_def)
  have h2: "(file_type ?f = ''application/pdf'' \<and> extract_text_from_pdf demo_lib (file_bytes ?f) = Inl ?e) \<or>
         (file_type ?f \<noteq> ''application/pdf'' \<and>
           (pil_open demo_lib (file_bytes ?f) = Inl ?e \<or>
            (\<exists>img. pil_open demo_lib (file_bytes ?f) = Inr img \<and> pil_save_jpeg demo_lib img = Inl ?e)))"
    by (simp add: demo_lib_def)
  show ?thesis
    using get_ollama_response_normalizer_failure [of demo_server "PDict [(''models'', PList [])]" ?f demo_lib ?e
        "''What is this?''" "[]", OF h1 h2] h1 h2
    by simp
qed

text \<open>
  C7.  Whatever the input, the server and the library, one call of the handler sends
  the probe first, then at most one model call (a \<open>llava\<close> completion, or a
  \<open>llava\<close> chat with a single message), and nothing else.
\<close>

theorem get_ollama_response_trace:
  "\<exists>t. snd (get_ollama_response lib srv text file log) = log @ t \<and> request_trace_ok t"
proof -
  obtain t where "snd (respond lib srv text file log) = log @ t" and "request_trace_ok t"
    using respond_trace by blast
  moreover note get_ollama_response_sent [of lib srv "text" "file" log]
  ultimately show ?thesis by auto
qed

text \<open>
  C20.  The preview is well formed, as the data model of the handler's result says:
  none, or, for a PDF upload whose text was extracted, the preview of that text, at
  most 503 characters long (500 and the marker), or, for any other upload, the image
  PIL opened from it.  The preview never comes from anything but the uploaded file.
\<close>

theorem get_ollama_response_preview_type:
  "case snd (fst (get_ollama_response lib srv text file log)) of
     NoExtra \<Rightarrow> True
   | TextExtra s \<Rightarrow>
       (\<exists>f t. file = Some f \<and> file_type f = ''application/pdf'' \<and>
          extract_text_from_pdf lib (file_bytes f) = Inr t \<and> s = pdf_preview t \<and> length s \<le> 503)
   | ImageExtra img \<Rightarrow>
       (\<exists>f. file = Some f \<and> file_type f \<noteq> ''application/pdf'' \<and> pil_open lib (file_bytes f) = Inr img)"
proof (cases "fst (respond lib srv text file log)")
  case (Inl e)
  then show ?thesis by (simp add: get_ollama_response_Inl)
next
  case (Inr rx)
  then obtain r x where rx: "fst (respond lib srv text file log) = Inr (r, x)"
    by (cases rx) simp
  then have "get_ollama_response lib srv text file log = ((r, x), snd (respond lib srv text file log))"
    by (rule get_ollama_response_Inr)
  with respond_Inr_extra [OF rx] show ?thesis
    by (auto simp: pdf_preview_length)
qed

end
