(* ===== verification/StreamlitApp.thy ===== *)
theory StreamlitApp
  imports Gateway
begin

text \<open>
  The page script of \<open>src/app.py\<close> (lines 23--97).  Streamlit runs the whole script
  again on every widget event; one run reads the widgets, calls the gateway when the
  button was pressed or live preview is on with a non-empty prompt (line 82), writes
  \<open>**Response:** <result>\<close> into the placeholder \<open>response_container\<close> (line 85) and,
  when the second component is truthy, the PDF preview or the image (lines 88--93).
  Layout calls (title, sidebar text, columns, footer) are in theory \<open>PageLayout\<close>.
  A session is a sequence of runs: the requests sent so far accumulate, while the
  page shows only what the latest run wrote.
\<close>

section \<open>Widgets and page elements\<close>

text \<open>The values the widgets hold in one run (lines 36, 44, 47 and 82).\<close>

record widgets =
  button :: bool
  live_preview :: bool
  text_input :: pystr
  uploaded_file :: "upload option"

text \<open>The widgets on the first run of a session: their declared defaults.\<close>

definition first_widgets :: widgets where
  "first_widgets =
     \<lparr>button = False, live_preview = False, text_input = ''Tell me about this content...'',
      uploaded_file = None\<rparr>"

text \<open>
  The elements written below the response: \<open>st.markdown\<close>, \<open>st.text\<close> and
  \<open>st.image\<close> with its caption.
\<close>

datatype 'img element =
    MarkdownEl pystr
  | TextEl pystr
  | ImageEl 'img pystr

text \<open>
  What one run shows: the content of the placeholder \<open>st.empty()\<close> of line 52 (empty
  until the run writes it) and the elements of lines 89--93.
\<close>

record 'img page_view =
  response_view :: "pystr option"
  previews :: "'img element list"

definition blank_view :: "'img page_view" where
  "blank_view = \<lparr>response_view = None, previews = []\<rparr>"

section \<open>One run of the script\<close>

text \<open>\<open>st.button("Get Response") or (live_preview and text_input)\<close> (line 82).\<close>

definition triggered :: "widgets \<Rightarrow> bool" where
  "triggered w \<longleftrightarrow> button w \<or> (live_preview w \<and> text_input w \<noteq> [])"

text \<open>
  \<open>if extra_content:\<close> (line 88): \<open>None\<close> and the empty string are false, a PIL
  image (which defines neither \<open>__bool__\<close> nor \<open>__len__\<close>) is true.
\<close>

fun extra_truthy :: "'img extra \<Rightarrow> bool" where
  "extra_truthy NoExtra = False"
| "extra_truthy (TextExtra s) = (s \<noteq> [])"
| "extra_truthy (ImageExtra _) = True"

text \<open>Lines 88--93.\<close>

definition show_extra :: "'img extra \<Rightarrow> 'img element list" where
  "show_extra extra_content =
     (if extra_truthy extra_content then
        (case extra_content of
           TextExtra s \<Rightarrow> [MarkdownEl ''**PDF Preview:**'', TextEl s]
         | ImageExtra img \<Rightarrow> [ImageEl img ''Uploaded Image'']
         | NoExtra \<Rightarrow> [])
      else [])"

text \<open>Lines 82--93: the view the run leaves and the requests it has sent.\<close>

definition page_run ::
  "('img, 'page) libs \<Rightarrow> server \<Rightarrow> widgets \<Rightarrow> request list \<Rightarrow> 'img page_view \<times> request list" where
  "page_run lib srv w log =
     (if triggered w then
        (case get_ollama_response lib srv (text_input w) (uploaded_file w) log of
           ((result, extra_content), log') \<Rightarrow>
             (\<lparr>response_view = Some (''**Response:** '' @ py_str result),
               previews = show_extra extra_content\<rparr>, log'))
      else (blank_view, log))"

section \<open>Sessions\<close>

text \<open>
  A session's state: every request sent so far, and the view of the latest run.
  A rerun replaces the view.
\<close>

record 'img session =
  sent :: "request list"
  view :: "'img page_view"

definition session_init :: "'img session" where
  "session_init = \<lparr>sent = [], view = blank_view\<rparr>"

definition rerun :: "('img, 'page) libs \<Rightarrow> server \<Rightarrow> 'img session \<Rightarrow> widgets \<Rightarrow> 'img session" where
  "rerun lib srv s w = (case page_run lib srv w (sent s) of (v, l) \<Rightarrow> \<lparr>sent = l, view = v\<rparr>)"

text \<open>A session driven by a given sequence of widget states, one per run.\<close>

definition session_run :: "('img, 'page) libs \<Rightarrow> server \<Rightarrow> widgets list \<Rightarrow> 'img session" where
  "session_run lib srv ws = foldl (rerun lib srv) session_init ws"

text \<open>The sessions a user can reach, whatever the widget events.\<close>

inductive session_reach :: "('img, 'page) libs \<Rightarrow> server \<Rightarrow> 'img session \<Rightarrow> bool"
  for lib :: "('img, 'page) libs" and srv :: server where
  start: "session_reach lib srv session_init"
| step: "session_reach lib srv s \<Longrightarrow> session_reach lib srv (rerun lib srv s w)"

text \<open>
  The logs the handler can produce in a session: a sequence of probes, each followed
  by at most one \<open>llava\<close> completion or single-message chat.  A model call always
  belongs to the probe just before it, so a left-to-right scan decides the shape.
\<close>

fun log_ok :: "request list \<Rightarrow> bool" where
  "log_ok [] = True"
| "log_ok (ListModels # Generate m p # rest) = (m = llava \<and> log_ok rest)"
| "log_ok (ListModels # Chat m ms # rest) = (m = llava \<and> length ms = 1 \<and> log_ok rest)"
| "log_ok (ListModels # rest) = log_ok rest"
| "log_ok _ = False"

section \<open>Lemmas\<close>

lemma request_trace_ok_iff:
  "request_trace_ok t \<longleftrightarrow>
     t = [ListModels] \<or> (\<exists>p. t = [ListModels, Generate llava p]) \<or>
     (\<exists>ms. t = [ListModels, Chat llava ms] \<and> length ms = 1)"
  by (cases t rule: request_trace_ok.cases) auto

lemma log_ok_hd: "log_ok l \<Longrightarrow> l = [] \<or> hd l = ListModels"
  by (induction l rule: log_ok.induct) auto

lemma log_ok_trace_append:
  assumes "request_trace_ok t" and "log_ok rest"
  shows "log_ok (t @ rest)"
proof -
  have "rest = [] \<or> hd rest = ListModels"
    using assms(2) by (rule log_ok_hd)
  then have "log_ok (ListModels # rest)"
    using assms(2) by (cases rest) auto
  with assms show ?thesis
    by (auto simp: request_trace_ok_iff)
qed

lemma traces_prepend:
  assumes "\<exists>ts. rest = concat ts \<and> list_all request_trace_ok ts" and "request_trace_ok t"
  shows "\<exists>ts. t @ rest = concat ts \<and> list_all request_trace_ok ts"
proof -
  from assms(1) obtain ts where "rest = concat ts" "list_all request_trace_ok ts"
    by blast
  with assms(2) show ?thesis
    by (intro exI [of _ "t # ts"]) simp
qed

lemma log_ok_split:
  "log_ok l \<Longrightarrow> \<exists>ts. l = concat ts \<and> list_all request_trace_ok ts"
proof (induction l rule: log_ok.induct)
  case (2 m p rest)
  then show ?case
    using traces_prepend [of rest "[ListModels, Generate m p]"] by simp
next
  case (3 m ms rest)
  then show ?case
    using traces_prepend [of rest "[ListModels, Chat m ms]"] by simp
next
  case 1
  then show ?case by (intro exI [of _ "[]"]) simp
qed (auto intro: traces_prepend [where t = "[ListModels]", simplified] exI [of _ "[[ListModels]]"])

lemma log_ok_concat_traces:
  "list_all request_trace_ok ts \<Longrightarrow> log_ok (concat ts)"
  by (induction ts) (simp_all add: log_ok_trace_append)

lemma log_ok_append: "log_ok l \<Longrightarrow> request_trace_ok t \<Longrightarrow> log_ok (l @ t)"
proof -
  assume "log_ok l" and t: "request_trace_ok t"
  then obtain ts where "l = concat ts" "list_all request_trace_ok ts"
    using log_ok_split by blast
  with t have "l @ t = concat (ts @ [t])" "list_all request_trace_ok (ts @ [t])"
    by simp_all
  then show "log_ok (l @ t)"
    by (simp only: log_ok_concat_traces)
qed

lemma request_trace_ok_counts:
  "request_trace_ok t \<Longrightarrow> length (filter (\<lambda>r. r = ListModels) t) = 1 \<and> length t \<le> 2"
  by (auto simp: request_trace_ok_iff)

text \<open>The requests one run sends: none when it is not triggered, one handler trace when it is.\<close>

lemma page_run_sent:
  "snd (page_run lib srv w log) = (if triggered w then snd (respond lib srv (text_input w) (uploaded_file w) log) else log)"
  by (simp add: page_run_def get_ollama_response_sent [symmetric] split: prod.split)

lemma page_run_trace:
  "\<exists>t. snd (page_run lib srv w log) = log @ t \<and> (if triggered w then request_trace_ok t else t = [])"
  using respond_trace [of lib srv "text_input w" "uploaded_file w" log]
  by (auto simp: page_run_sent)

lemma rerun_sent: "sent (rerun lib srv s w) = snd (page_run lib srv w (sent s))"
  by (simp add: rerun_def split: prod.split)

lemma rerun_view: "view (rerun lib srv s w) = fst (page_run lib srv w (sent s))"
  by (simp add: rerun_def split: prod.split)

lemma session_run_Nil [simp]: "session_run lib srv [] = session_init"
  by (simp add: session_run_def)

lemma session_run_snoc [simp]:
  "session_run lib srv (ws @ [w]) = rerun lib srv (session_run lib srv ws) w"
  by (simp add: session_run_def)

lemma log_ok_iff_traces: "log_ok l \<longleftrightarrow> (\<exists>ts. l = concat ts \<and> list_all request_trace_ok ts)"
  using log_ok_split log_ok_concat_traces by blast

lemma session_run_sent_trace:
  "\<exists>t. sent (session_run lib srv (ws @ [w])) = sent (session_run lib srv ws) @ t \<and>
       (if triggered w then request_trace_ok t else t = [])"
  using page_run_trace [of lib srv w "sent (session_run lib srv ws)"] by (simp add: rerun_sent)

section \<open>Properties of the page script\<close>

text \<open>
  C13.  A rerun that is not triggered (any widget event without the button, live
  preview off or an emptied prompt) sends no request and blanks the response area:
  the answer of the previous run is not shown any more.
\<close>

theorem session_rerun_untriggered:
  assumes "\<not> triggered w"
  shows "sent (session_run lib srv (ws @ [w])) = sent (session_run lib srv ws) \<and>
         view (session_run lib srv (ws @ [w])) = blank_view"
  using assms by (simp add: rerun_sent rerun_view page_run_def)

theorem session_rerun_untriggered_witness:
  "\<not> triggered \<lparr>button = False, live_preview = True, text_input = [], uploaded_file = None\<rparr> \<and>
   sent (session_run demo_lib demo_server
     ([\<lparr>button = True, live_preview = False, text_input = ''Hi'', uploaded_file = None\<rparr>] @
      [\<lparr>button = False, live_preview = True, text_input = [], uploaded_file = None\<rparr>])) =
   sent (session_run demo_lib demo_server [\<lparr>button = True, live_preview = False, text_input = ''Hi'', uploaded_file = None\<rparr>]) \<and>
   view (session_run demo_lib demo_server
     ([\<lparr>button = True, live_preview = False, text_input = ''Hi'', uploaded_file = None\<rparr>] @
      [\<lparr>button = False, live_preview = True, text_input = [], uploaded_file = None\<rparr>])) = blank_view"
proof -
  have h: "\<not> triggered \<lparr>button = False, live_preview = True, text_input = [], uploaded_file = None\<rparr>"
    by (simp add: triggered_def)
  show ?thesis
    using session_rerun_untriggered [OF h, of demo_lib demo_server
        "[\<lparr>button = True, live_preview = False, text_input = ''Hi'', uploaded_file = None\<rparr>]"] h
    by blast
qed

text \<open>
  C14.  In every session a user can reach, whatever the widget events and whatever the
  server answers, the requests sent so far are a sequence of handler calls: a probe,
  each followed by at most one \<open>llava\<close> completion or single-message chat.
\<close>

theorem session_reach_log_ok:
  assumes "session_reach lib srv s"
  shows "log_ok (sent s)"
  using assms
proof (induction rule: session_reach.induct)
  case start
  show ?case by (simp add: session_init_def)
next
  case (step s w)
  obtain t where t: "snd (page_run lib srv w (sent s)) = sent s @ t"
    and ok: "if triggered w then request_trace_ok t else t = []"
    using page_run_trace by blast
  show ?case
  proof (cases "triggered w")
    case True
    with ok step.IH have "log_ok (sent s @ t)" by (simp add: log_ok_append)
    with t show ?thesis by (simp add: rerun_sent)
  next
    case False
    with ok t step.IH show ?thesis by (simp add: rerun_sent)
  qed
qed

theorem session_reach_log_ok_witness:
  "session_reach demo_lib demo_server
     (rerun demo_lib demo_server session_init \<lparr>button = True, live_preview = False, text_input = ''Hi'', uploaded_file = None\<rparr>) \<and>
   log_ok (sent (rerun demo_lib demo_server session_init
     \<lparr>button = True, live_preview = False, text_input = ''Hi'', uploaded_file = None\<rparr>))"
proof -
  have h: "session_reach demo_lib demo_server
     (rerun demo_lib demo_server session_init \<lparr>button = True, live_preview = False, text_input = ''Hi'', uploaded_file = None\<rparr>)"
    by (intro session_reach.step session_reach.start)
  show ?thesis
    using session_reach_log_ok [OF h] h by blast
qed

text \<open>
  C15.  Over a session driven by the widget states \<open>ws\<close>, the server is probed exactly
  once per triggered run, and at most two requests are sent per triggered run: the
  untriggered runs send nothing and no run calls the model twice.
\<close>

theorem session_request_counts:
  "length (filter (\<lambda>r. r = ListModels) (sent (session_run lib srv ws))) = length (filter triggered ws) \<and>
   length (sent (session_run lib srv ws)) \<le> 2 * length (filter triggered ws)"
proof (induction ws rule: rev_induct)
  case Nil
  show ?case by (simp add: session_init_def)
next
  case (snoc w ws)
  obtain t where "sent (session_run lib srv (ws @ [w])) = sent (session_run lib srv ws) @ t"
    and "if triggered w then request_trace_ok t else t = []"
    using session_run_sent_trace by blast
  with snoc.IH show ?case
    by (cases "triggered w") (auto dest: request_trace_ok_counts)
qed

end
