(* ===== verification/PageLayout.thy ===== *)
theory PageLayout
  imports StreamlitApp
begin

text \<open>
  The whole page one run of \<open>src/app.py\<close> renders, in the order of its Streamlit calls:
  the page configuration, title and introduction (lines 23--25), the sidebar with the
  instructions, the live-preview checkbox and the note (lines 28--37), the two columns
  with the prompt, the uploader, the heading and the response placeholder (lines
  40--52), the button (line 82), what the run writes below it (lines 88--93) and the
  footer (lines 96--97).  Each element is a call with its arguments, placed in the
  container the \<open>with\<close> block selects.  The spinner of line 83 is visible only while
  the call runs and is not part of the page the run leaves.

  Python strings of the layout hold code points above 255 (the robot icon, the heart
  and its variation selector), so their text is a list of code points \<open>ustr\<close>; a
  literal written in Latin-1 is converted by \<open>ustr\<close>.
\<close>

type_synonym ustr = "nat list"

definition ustr :: "pystr \<Rightarrow> ustr" where
  "ustr s = map of_char s"

datatype container = MainArea | Sidebar | Column1 | Column2

datatype 'img st_call =
    SetPageConfig ustr ustr pystr
  | Title ustr
  | Markdown ustr
  | Header ustr
  | Write ustr
  | Checkbox pystr bool
  | Info pystr
  | Columns "nat list"
  | TextArea pystr pystr nat
  | FileUploader pystr "pystr list"
  | Subheader pystr
  | Placeholder "pystr option"
  | Button pystr
  | Shown "'img element"

section \<open>The literals of the page\<close>

text \<open>The sidebar instructions, the triple-quoted string of lines 30--35.\<close>

definition how_to_text :: ustr where
  "how_to_text = ustr
     ([newline] @ ''    1. Type a question or prompt in the text box.'' @
      [newline] @ ''    2. Optionally upload an image or PDF.'' @
      [newline] @ ''    3. Click '' @ [CHR 0x27] @ ''Get Response'' @ [CHR 0x27] @
        '' or watch the live preview (if enabled).'' @
      [newline] @ ''    4. Enjoy the AI'' @ [CHR 0x27] @ ''s response!'' @
      [newline] @ ''    '')"

text \<open>Line 97: \<open>Built with\<close>, U+2764 and U+FE0F (a red heart), and the credits.\<close>

definition footer_text :: ustr where
  "footer_text = ustr ''Built with '' @ [0x2764, 0xFE0F] @
     ustr '' using Streamlit and Ollama | Demo by [Your Name]''"

section \<open>The page\<close>

text \<open>Lines 23--52, before the response placeholder.\<close>

definition layout_head :: "(container \<times> 'img st_call) list" where
  "layout_head =
     [(MainArea, SetPageConfig (ustr ''Interactive AI Demo'') [0x1F916] ''wide''),
      (MainArea, Title (ustr ''Interactive AI Demo with Text, Images, and PDFs'')),
      (MainArea, Markdown (ustr
         ''Explore AI capabilities by entering text, uploading images, or PDFs. Powered by Ollama (LLaVA).'')),
      (Sidebar, Header (ustr ''How to Use'')),
      (Sidebar, Write how_to_text),
      (Sidebar, Checkbox ''Enable Live Preview'' False),
      (Sidebar, Info (''Note: Ensure '' @ [CHR 0x27] @ ''ollama serve'' @ [CHR 0x27] @ '' is running locally.'')),
      (MainArea, Columns [2, 1]),
      (Column1, TextArea ''Your Prompt'' ''Tell me about this content...'' 150),
      (Column1, FileUploader ''Upload an Image or PDF (optional)'' [''jpg'', ''png'', ''jpeg'', ''pdf'']),
      (Column2, Subheader ''AI Response'')]"

text \<open>Lines 96--97.\<close>

definition layout_footer :: "(container \<times> 'img st_call) list" where
  "layout_footer = [(MainArea, Markdown (ustr ''---'')), (MainArea, Write footer_text)]"

text \<open>
  The page with a given content of the placeholder (line 52, written at line 85) and
  given elements below the button (lines 88--93).
\<close>

definition page_layout :: "pystr option \<Rightarrow> 'img element list \<Rightarrow> (container \<times> 'img st_call) list" where
  "page_layout response shown =
     layout_head @ [(Column2, Placeholder response), (MainArea, Button ''Get Response'')] @
     map (\<lambda>e. (MainArea, Shown e)) shown @ layout_footer"

text \<open>One run of the script: the page it leaves and the requests it sent.\<close>

definition page_render ::
  "('img, 'page) libs \<Rightarrow> server \<Rightarrow> widgets \<Rightarrow> request list \<Rightarrow>
     (container \<times> 'img st_call) list \<times> request list" where
  "page_render lib srv w log =
     (case page_run lib srv w log of (v, log') \<Rightarrow> (page_layout (response_view v) (previews v), log'))"

section \<open>Lemmas\<close>

lemma page_render_run:
  "page_render lib srv w log =
     (page_layout (response_view (fst (page_run lib srv w log))) (previews (fst (page_run lib srv w log))),
      snd (page_run lib srv w log))"
  by (simp add: page_render_def split: prod.split)

lemma page_run_previews_response:
  "previews (fst (page_run lib srv w log)) \<noteq> [] \<Longrightarrow>
     triggered w \<and> (\<exists>r. response_view (fst (page_run lib srv w log)) = Some r)"
  by (auto simp: page_run_def blank_view_def split: prod.split if_split_asm)

lemma page_layout_shown:
  "(MainArea, Shown e) \<in> set (page_layout response shown) \<longleftrightarrow> e \<in> set shown"
  by (auto simp: page_layout_def layout_head_def layout_footer_def)

lemma page_layout_placeholder:
  "(Column2, Placeholder r) \<in> set (page_layout response shown) \<longleftrightarrow> r = response"
  by (auto simp: page_layout_def layout_head_def layout_footer_def)

section \<open>Properties of the page\<close>

text \<open>
  C21.  The first load: the widgets hold the defaults the calls declare (checkbox off,
  the default prompt, no file, button not pressed), so the run sends no request and
  leaves the page with an empty response area and nothing below the button.  Ticking
  live preview alone is enough to trigger a call, since the default prompt is not
  empty: the next run probes the server.
\<close>

theorem first_load:
  "page_render lib srv first_widgets log = (page_layout None [], log) \<and>
   (\<exists>t. snd (page_render lib srv (first_widgets\<lparr>live_preview := True\<rparr>) log) = log @ ListModels # t)"
proof -
  have idle: "\<not> triggered first_widgets" and live: "triggered (first_widgets\<lparr>live_preview := True\<rparr>)"
    by (simp_all add: triggered_def first_widgets_def)
  from idle have "page_render lib srv first_widgets log = (page_layout None [], log)"
    by (simp add: page_render_def page_run_def blank_view_def)
  moreover obtain t where "snd (page_run lib srv (first_widgets\<lparr>live_preview := True\<rparr>) log) = log @ t"
      and "request_trace_ok t"
    using page_run_trace [of lib srv "first_widgets\<lparr>live_preview := True\<rparr>" log] live by auto
  then have "\<exists>t. snd (page_render lib srv (first_widgets\<lparr>live_preview := True\<rparr>) log) = log @ ListModels # t"
    by (auto simp: page_render_run request_trace_ok_iff)
  ultimately show ?thesis by blast
qed

text \<open>
  C22.  A preview is never shown without an answer: whenever a rendered page has an
  element below the button, the run was triggered and the placeholder in the second
  column holds a response.
\<close>

theorem page_render_preview_needs_response:
  assumes "(MainArea, Shown e) \<in> set (fst (page_render lib srv w log))"
  shows "triggered w \<and> (\<exists>r. (Column2, Placeholder (Some r)) \<in> set (fst (page_render lib srv w log)))"
proof -
  from assms have "e \<in> set (previews (fst (page_run lib srv w log)))"
    by (simp add: page_render_run page_layout_shown)
  then have "previews (fst (page_run lib srv w log)) \<noteq> []"
    by auto
  from page_run_previews_response [OF this] show ?thesis
    by (auto simp: page_render_run page_layout_placeholder)
qed

theorem page_render_preview_needs_response_witness:
  "(MainArea, Shown (MarkdownEl ''**PDF Preview:**'')) \<in> set (fst (page_render demo_lib demo_server \<lparr>button = True, live_preview = False, text_input = ''Sum up'', uploaded_file = Some \<lparr>file_name = ''a.pdf'', file_type = ''application/pdf'', file_bytes = [1]\<rparr>\<rparr> [])) \<and>
   triggered \<lparr>button = True, live_preview = False, text_input = ''Sum up'', uploaded_file = Some \<lparr>file_name = ''a.pdf'', file_type = ''application/pdf'', file_bytes = [1]\<rparr>\<rparr> \<and>
   (\<exists>r. (Column2, Placeholder (Some r)) \<in> set (fst (page_render demo_lib demo_server \<lparr>button = True, live_preview = False, text_input = ''Sum up'', uploaded_file = Some \<lparr>file_name = ''a.pdf'', file_type = ''application/pdf'', file_bytes = [1]\<rparr>\<rparr> [])))"
proof -
  have h: "(MainArea, Shown (MarkdownEl ''**PDF Preview:**'')) \<in> set (fst (page_render demo_lib demo_server \<lparr>button = True, live_preview = False, text_input = ''Sum up'', uploaded_file = Some \<lparr>file_name = ''a.pdf'', file_type = ''application/pdf'', file_bytes = [1]\<rparr>\<rparr> []))"
    by (simp add: page_render_run page_layout_shown page_run_def triggered_def get_ollama_response_run
        respond_run respond_pdf_run demo_server_def extract_text_from_pdf_def demo_lib_def page_text_def
        show_extra_def pdf_preview_def)
  have c: "triggered \<lparr>button = True, live_preview = False, text_input = ''Sum up'', uploaded_file = Some \<lparr>file_name = ''a.pdf'', file_type = ''application/pdf'', file_bytes = [1]\<rparr>\<rparr> \<and> (\<exists>r. (Column2, Placeholder (Some r)) \<in> set (fst (page_render demo_lib demo_server \<lparr>button = True, live_preview = False, text_input = ''Sum up'', uploaded_file = Some \<lparr>file_name = ''a.pdf'', file_type = ''application/pdf'', file_bytes = [1]\<rparr>\<rparr> [])))"
    by (rule page_render_preview_needs_response [OF h])
  show ?thesis
    by (intro conjI h conjunct1 [OF c] conjunct2 [OF c])
qed

end
