(* ===== verification/Spec2Isabelle.thy ===== *)
theory Spec2Isabelle
  imports StreamlitApp PageLayout
begin

text \<open>
  \<^bold>\<open>A verification library for \<open>src/app.py\<close>\<close>, a Streamlit page that sends a prompt,
  optionally with an image or a PDF, to a local Ollama model server (model \<open>llava\<close>)
  and shows the reply with a preview of the upload.

  \<^bold>\<open>The program's parts.\<close>
  \<^item> The content normalizer, \<open>image_to_base64\<close> (lines 9--12) and
    \<open>extract_text_from_pdf\<close> (lines 15--20), pure functions over the PIL and PyPDF2
    libraries and \<open>base64.b64encode\<close>.
  \<^item> The response gateway \<open>get_ollama_response\<close> (lines 55--79): a liveness probe
    \<open>ollama.list()\<close>, then one of three branches (no file: one \<open>ollama.generate\<close>;
    a PDF: text extraction and one \<open>ollama.generate\<close>; any other file: PIL, base64 and
    one \<open>ollama.chat\<close>), all inside one \<open>try/except Exception\<close> that turns every
    failure into an error string.
  \<^item> The page script (lines 23--97), which Streamlit reruns on every widget event; it
    calls the gateway when the button is pressed or live preview is on with a non-empty
    prompt (line 82), and renders the reply and the preview (lines 85--93).
  The parts interact only through calls, in a pipeline: widgets, normalizer, gateway,
  model server, display.

  \<^bold>\<open>Theories.\<close>
  \<^item> \<open>Prelude\<close>: the types \<open>byte\<close>, \<open>bytes\<close>, \<open>pystr\<close>, the collection
    \<open>model_simps\<close>, generic facts on sums and bytes.
  \<^item> \<open>PyRuntime\<close>: the Python runtime fragment the code relies on: the exception
    datatype \<open>exc\<close> with \<open>str(e)\<close> (\<open>exc_str\<close>, including \<open>repr\<close> for
    \<open>KeyError\<close>), reply values \<open>pyval\<close> with subscription \<open>py_getitem\<close> and
    \<open>str(v)\<close> (\<open>py_str\<close>, \<open>py_repr\<close>), and the state-and-exception monad
    (\<open>py_bind\<close>, \<open>py_lift\<close>, \<open>py_catch\<close> for \<open>try/except\<close>) with its laws.
  \<^item> \<open>Base64\<close>: CPython's \<open>binascii.b2a_base64\<close> as written in C: a 32-bit wrapping
    accumulator \<open>leftchar\<close> and a bit count \<open>leftbits\<close> (\<open>b64_emit\<close>,
    \<open>b2a_loop\<close>, \<open>b2a_finish\<close>, \<open>b2a_base64\<close>, \<open>b64encode\<close>); the RFC 4648
    group-wise encoder \<open>b64_ref\<close> and decoder \<open>b64_decode\<close>.  Its lemmas show that the C
    loop equals the reference (no bit is lost to the 32-bit wrap-around), that decoding
    inverts it, the output length \<open>4 * ceil(n/3)\<close>, that it is ASCII, and that
    \<open>leftbits = 2 * (n mod 3)\<close> after \<open>n\<close> bytes.
  \<^item> \<open>Normalizer\<close>: the library interface \<open>('img, 'page) libs\<close> (PIL's open and JPEG
    save, PyPDF2's pages and \<open>extract_text\<close>, each returning a value or an exception),
    \<open>image_to_base64\<close>, the page loop \<open>extract_pages\<close> and \<open>extract_text_from_pdf\<close>;
    the example library \<open>demo_lib\<close>.
  \<^item> \<open>OllamaClient\<close>: the requests \<open>ListModels\<close>, \<open>Generate\<close>, \<open>Chat\<close>; the server
    as a deterministic function from requests to a reply or an exception; the calls
    \<open>ollama_list\<close>, \<open>ollama_generate\<close>, \<open>ollama_chat\<close>, which append the request to
    the log of sent requests (the monad's state).
  \<^item> \<open>Gateway\<close>: \<open>respond_text\<close>, \<open>respond_pdf\<close>, \<open>respond_image\<close> (the three
    branches), \<open>respond\<close> (the \<open>try\<close> body) and \<open>get_ollama_response\<close>, with
    \<open>pdf_prompt\<close>, \<open>pdf_preview\<close> and \<open>error_text\<close> for the string expressions of
    lines 64, 66 and 79; characteristic equations of every branch; example servers.
  \<^item> \<open>StreamlitApp\<close>: the widget values \<open>widgets\<close>, the trigger \<open>triggered\<close> (line 82),
    Python truthiness of the preview \<open>extra_truthy\<close> (line 88), the display
    \<open>show_extra\<close> and one run of the script \<open>page_run\<close> (lines 82--93), which yields the
    page shown (\<open>page_view\<close>: the placeholder of line 52 and the elements below it) and
    the requests sent.  A session (\<open>session\<close>: requests sent, current page) evolves by
    \<open>rerun\<close>; \<open>session_run\<close> folds it over a sequence of widget states and
    \<open>session_reach\<close> is the inductive reachability relation; \<open>log_ok\<close> is an
    executable check of the shape of a request log.
  \<^item> \<open>PageLayout\<close>: every Streamlit call of the page with its arguments and container
    (\<open>st_call\<close>, \<open>container\<close>): the head of lines 23--51 (\<open>layout_head\<close>),
    the placeholder and the button, what the run writes, and the footer of lines 96--97
    (\<open>layout_footer\<close>); \<open>page_render\<close> is the page one run leaves.  Literals
    with code points above 255 (the icon, the heart) are lists of code points
    (\<open>ustr\<close>).
  \<^item> This theory: the properties that span the gateway, the normalizer and the page.

  \<^bold>\<open>What the properties show.\<close>  The handler (theory \<open>Gateway\<close>): the text-only path
  (C1), the collapse of a failed probe into the error string for every input (C2), the
  2000-character cut of the PDF text sent to the model (C3), the 500-character preview
  (C4), the error string for every normalizer failure with no model call (C6), the shape
  of the requests of one call (C7), and the well-formedness of the preview: none, the
  preview of the PDF's text, or the image PIL opened (C20).  Across components (here):
  the base64 payload of an image decodes to the JPEG buffer (C5); what a triggered run
  shows for a PDF, including that an empty preview is hidden (C16), for a server that
  is down (C17) and for an image (C18); every triggered run shows an answer, the error
  string or a field of the reply to its model call (C19).  The normalizer: the C
  encoder equals RFC 4648 (C8), round trip (C9), length and alphabet (C10), success and
  failure of PDF extraction (C11, C12).  Sessions: an untriggered rerun sends nothing
  and blanks the answer (C13), the shape of the request log is an invariant of every
  reachable session (C14), and one probe and at most two requests are sent per
  triggered run (C15).  The page: the first load sends nothing and ticking live
  preview alone triggers a call (C21); a preview is never shown without a response
  (C22).

  The spec's idempotence property (section 8) and its "no state between calls" hold of
  this model by construction: the only state is the log of requests sent, which no
  part of the program reads, and the server is a function.  They are therefore not
  stated as properties; a statement of them would hold of any handler.

  \<^bold>\<open>Bounds and fuel.\<close>  Every loop of the program runs over a finite list (the input
  bytes, the PDF pages), so every function is total by structural recursion and none
  needs fuel; the C inner loop \<open>while (leftbits >= 6)\<close> is a \<open>fun\<close> whose argument
  \<open>leftbits\<close> decreases, and the digit loop of \<open>py_nat_digits\<close> divides by 10.  A
  session is finite: it is a list of reruns.

  \<^bold>\<open>Not modelled.\<close>  The libraries the code only calls: PIL's image decoding and JPEG
  encoding, PyPDF2's parser and text extraction, the HTTP transport of the ollama
  client, and the model itself; they are the parameters \<open>libs\<close> and \<open>server\<close>, and
  every lemma holds for all of them.  The spinner of line 83 is visible only while a
  call runs and is left out of the page; Streamlit's rendering of the calls (fonts,
  widths, the deprecated \<open>use_column_width\<close>) is presentation.  Lines 1--8 are
  imports.  The widgets of a session are any values in any
  order; Streamlit's keeping of the upload across reruns is not assumed.  A Python
  \<open>str\<close> is a list of \<open>char\<close>, one per code point.
\<close>

section \<open>Properties across the components\<close>

text \<open>
  C5.  The image payload: for an upload that is not a PDF, which PIL opens and
  re-encodes as JPEG, the handler sends after the probe exactly one \<open>llava\<close> chat
  with one user message carrying the prompt and one base64 string, and decoding that
  string gives back the JPEG buffer byte for byte.
\<close>

theorem get_ollama_response_image_payload:
  assumes "srv ListModels = Inr v"
    and "file_type f \<noteq> ''application/pdf''"
    and "pil_open lib (file_bytes f) = Inr img"
    and "pil_save_jpeg lib img = Inr jpeg"
  shows "\<exists>b64. snd (get_ollama_response lib srv text (Some f) log) =
           log @ [ListModels, Chat ''llava'' [\<lparr>role = ''user'', content = text, images = [b64]\<rparr>]] \<and>
           b64_decode (ascii_encode b64) = Some jpeg"
proof -
  have enc: "image_to_base64 (pil_save_jpeg lib) img = Inr (ascii_decode (b64encode jpeg))"
    using assms(4) by (simp add: image_to_base64_def)
  from image_to_base64_decode [OF enc] obtain buf where saved: "pil_save_jpeg lib img = Inr buf"
      and dec: "b64_decode (ascii_encode (ascii_decode (b64encode jpeg))) = Some buf"
    by (elim exE conjE)
  from assms(4) saved have "buf = jpeg"
    by simp
  with dec have "b64_decode (ascii_encode (ascii_decode (b64encode jpeg))) = Some jpeg"
    by (simp only:)
  moreover have "snd (get_ollama_response lib srv text (Some f) log) =
      log @ [ListModels, Chat ''llava'' [image_message text (ascii_decode (b64encode jpeg))]]"
    using assms(1-3) enc
    by (simp add: get_ollama_response_sent respond_run respond_image_run split: sum.split)
  ultimately show ?thesis
    by (intro exI [of _ "ascii_decode (b64encode jpeg)"]) (simp only: image_message_def simp_thms)
qed

theorem get_ollama_response_image_payload_witness:
  "demo_server ListModels = Inr (PDict [(''models'', PList [])]) \<and>
   file_type \<lparr>file_name = ''x.jpg'', file_type = ''image/jpeg'', file_bytes = [1, 2]\<rparr> \<noteq> ''application/pdf'' \<and>
   pil_open demo_lib (file_bytes \<lparr>file_name = ''x.jpg'', file_type = ''image/jpeg'', file_bytes = [1, 2]\<rparr>) = Inr 2 \<and>
   pil_save_jpeg demo_lib 2 = Inr (replicate 2 0xFF) \<and>
   (\<exists>b64. snd (get_ollama_response demo_lib demo_server ''What is this?'' (Some \<lparr>file_name = ''x.jpg'', file_type = ''image/jpeg'', file_bytes = [1, 2]\<rparr>) []) =
           [ListModels, Chat ''llava'' [\<lparr>role = ''user'', content = ''What is this?'', images = [b64]\<rparr>]] \<and>
           b64_decode (ascii_encode b64) = Some (replicate 2 0xFF))"
proof -
  have h1: "demo_server ListModels = Inr (PDict [(''models'', PList [])])"
    by (simp add: demo_server_def)
  have h2: "file_type \<lparr>file_name = ''x.jpg'', file_type = ''image/jpeg'', file_bytes = [1, 2]\<rparr> \<noteq> ''application/pdf''"
    by simp
  have h3: "pil_open demo_lib (file_bytes \<lparr>file_name = ''x.jpg'', file_type = ''image/jpeg'', file_bytes = [1, 2]\<rparr>) = Inr 2"
    by (simp add: demo_lib_def)
  have h4: "pil_save_jpeg demo_lib 2 = Inr (replicate 2 0xFF)"
    by (simp add: demo_lib_def)
  have c: "\<exists>b64. snd (get_ollama_response demo_lib demo_server ''What is this?''
        (Some \<lparr>file_name = ''x.jpg'', file_type = ''image/jpeg'', file_bytes = [1, 2]\<rparr>) []) =
      [ListModels, Chat ''llava'' [\<lparr>role = ''user'', content = ''What is this?'', images = [b64]\<rparr>]] \<and>
      b64_decode (ascii_encode b64) = Some (replicate 2 0xFF)"
    using get_ollama_response_image_payload [where srv = demo_server and lib = demo_lib and img = 2,
        OF h1 h2 h3 h4, of "''What is this?''" "[]"]
    by (simp only: append_Nil)
  show ?thesis
    by (intro conjI h1 h2 h3 h4 c)
qed

text \<open>
  C16.  A triggered run on a PDF: the response area shows \<open>**Response:**\<close> and the
  model's answer; below it the preview label and the truncated text, but only when
  the extracted text is not empty: a PDF with no extractable text (a scanned PDF)
  reaches the model with an empty content section and shows no preview at all, since
  \<open>if extra_content:\<close> treats the empty preview as false.
\<close>

theorem page_run_pdf_display:
  assumes "triggered w"
    and "uploaded_file w = Some f"
    and "file_type f = ''application/pdf''"
    and "srv ListModels = Inr v"
    and "extract_text_from_pdf lib (file_bytes f) = Inr t"
    and "srv (Generate ''llava'' (pdf_prompt (text_input w) t)) = Inr reply"
    and "py_getitem reply ''response'' = Inr out"
  shows "fst (page_run lib srv w log) =
           \<lparr>response_view = Some (''**Response:** '' @ py_str out),
            previews = (if t = [] then [] else [MarkdownEl ''**PDF Preview:**'', TextEl (pdf_preview t)])\<rparr>"
proof -
  have "pdf_preview t = [] \<longleftrightarrow> t = []"
    by (auto simp: pdf_preview_def)
  with assms show ?thesis
    by (simp add: page_run_def get_ollama_response_run respond_run respond_pdf_run show_extra_def)
qed

theorem page_run_pdf_display_witness:
  "triggered \<lparr>button = True, live_preview = False, text_input = ''Sum up'', uploaded_file = Some \<lparr>file_name = ''a.pdf'', file_type = ''application/pdf'', file_bytes = [1]\<rparr>\<rparr> \<and>
   uploaded_file \<lparr>button = True, live_preview = False, text_input = ''Sum up'', uploaded_file = Some \<lparr>file_name = ''a.pdf'', file_type = ''application/pdf'', file_bytes = [1]\<rparr>\<rparr> = Some \<lparr>file_name = ''a.pdf'', file_type = ''application/pdf'', file_bytes = [1]\<rparr> \<and>
   file_type \<lparr>file_name = ''a.pdf'', file_type = ''application/pdf'', file_bytes = [1]\<rparr> = ''application/pdf'' \<and>
   demo_server ListModels = Inr (PDict [(''models'', PList [])]) \<and>
   extract_text_from_pdf demo_lib [1] = Inr ''Hello world'' \<and>
   demo_server (Generate ''llava'' (pdf_prompt ''Sum up'' ''Hello world'')) = Inr (PDict [(''response'', PStr ''an answer'')]) \<and>
   py_getitem (PDict [(''response'', PStr ''an answer'')]) ''response'' = Inr (PStr ''an answer'') \<and>
   fst (page_run demo_lib demo_server
          \<lparr>button = True, live_preview = False, text_input = ''Sum up'', uploaded_file = Some \<lparr>file_name = ''a.pdf'', file_type = ''application/pdf'', file_bytes = [1]\<rparr>\<rparr> []) =
     \<lparr>response_view = Some ''**Response:** an answer'',
      previews = [MarkdownEl ''**PDF Preview:**'', TextEl ''Hello world'']\<rparr>"
proof -
  let ?w = "\<lparr>button = True, live_preview = False, text_input = ''Sum up'', uploaded_file = Some \<lparr>file_name = ''a.pdf'', file_type = ''application/pdf'', file_bytes = [1]\<rparr>\<rparr>"
  have h1: "triggered ?w" by (simp add: triggered_def)
  have h2: "uploaded_file ?w = Some \<lparr>file_name = ''a.pdf'', file_type = ''application/pdf'', file_bytes = [1]\<rparr>" by simp
  have h3: "file_type \<lparr>file_name = ''a.pdf'', file_type = ''application/pdf'', file_bytes = [1]\<rparr> = ''application/pdf''" by simp
  have h4: "demo_server ListModels = Inr (PDict [(''models'', PList [])])"
    by (simp add: demo_server_def)
  have h5: "extract_text_from_pdf demo_lib (file_bytes \<lparr>file_name = ''a.pdf'', file_type = ''application/pdf'', file_bytes = [1]\<rparr>) = Inr ''Hello world''"
    by (simp add: extract_text_from_pdf_def demo_lib_def page_text_def)
  have h6: "demo_server (Generate ''llava'' (pdf_prompt (text_input ?w) ''Hello world'')) =
      Inr (PDict [(''response'', PStr ''an answer'')])"
    by (simp add: demo_server_def)
  have h7: "py_getitem (PDict [(''response'', PStr ''an answer'')]) ''response'' = Inr (PStr ''an answer'')"
    by simp
  show ?thesis
    using page_run_pdf_display [OF h1 h2 h3 h4 h5 h6 h7, of "[]"] h1 h2 h3 h4 h5 h6 h7
    by (simp add: pdf_preview_def)
qed

text \<open>
  C17.  A triggered run while the server is down, whatever the prompt and the upload:
  the response area shows \<open>**Response:** Error: <str(e)>. Is Ollama running on
  127.0.0.1:11434?\<close>, nothing is shown below it, and only the probe was sent.
  The page always shows a response, never a traceback.
\<close>

theorem page_run_probe_failure:
  assumes "triggered w"
    and "srv ListModels = Inl e"
  shows "page_run lib srv w log =
           (\<lparr>response_view = Some (''**Response:** Error: '' @ exc_str e @ ''. Is Ollama running on 127.0.0.1:11434?''),
             previews = []\<rparr>, log @ [ListModels])"
  using assms
  by (simp add: page_run_def get_ollama_response_run respond_run error_text_def show_extra_def)

theorem page_run_probe_failure_witness:
  "triggered \<lparr>button = False, live_preview = True, text_input = ''Hi'', uploaded_file = Some \<lparr>file_name = ''a.pdf'', file_type = ''application/pdf'', file_bytes = [1]\<rparr>\<rparr> \<and>
   down_server ListModels = Inl (ConnectionError ''Failed to connect to Ollama'') \<and>
   page_run demo_lib down_server \<lparr>button = False, live_preview = True, text_input = ''Hi'', uploaded_file = Some \<lparr>file_name = ''a.pdf'', file_type = ''application/pdf'', file_bytes = [1]\<rparr>\<rparr> [] =
     (\<lparr>response_view = Some ''**Response:** Error: Failed to connect to Ollama. Is Ollama running on 127.0.0.1:11434?'',
       previews = []\<rparr>, [ListModels])"
proof -
  have h1: "triggered \<lparr>button = False, live_preview = True, text_input = ''Hi'', uploaded_file = Some \<lparr>file_name = ''a.pdf'', file_type = ''application/pdf'', file_bytes = [1]\<rparr>\<rparr>"
    by (simp add: triggered_def)
  have h2: "down_server ListModels = Inl (ConnectionError ''Failed to connect to Ollama'')"
    by (simp add: down_server_def)
  show ?thesis
    using page_run_probe_failure [where srv = down_server and lib = demo_lib and log = "[]", OF h1 h2] h1 h2
    by simp
qed

text \<open>
  C18.  A triggered run on an image that the model describes: the response area shows
  the description and, below it, the image PIL opened, captioned \<open>Uploaded Image\<close>.
\<close>

theorem page_run_image_display:
  assumes "triggered w"
    and "uploaded_file w = Some f"
    and "file_type f \<noteq> ''application/pdf''"
    and "srv ListModels = Inr v"
    and "pil_open lib (file_bytes f) = Inr img"
    and "image_to_base64 (pil_save_jpeg lib) img = Inr b64"
    and "srv (Chat ''llava'' [image_message (text_input w) b64]) = Inr reply"
    and "py_getitem reply ''message'' = Inr m"
    and "py_getitem m ''content'' = Inr c"
  shows "fst (page_run lib srv w log) =
           \<lparr>response_view = Some (''**Response:** '' @ py_str c), previews = [ImageEl img ''Uploaded Image'']\<rparr>"
  using assms
  by (simp add: page_run_def get_ollama_response_run respond_run respond_image_run show_extra_def)

theorem page_run_image_display_witness:
  "triggered \<lparr>button = True, live_preview = False, text_input = ''What is this?'', uploaded_file = Some \<lparr>file_name = ''x.jpg'', file_type = ''image/jpeg'', file_bytes = [1, 2]\<rparr>\<rparr> \<and>
   uploaded_file \<lparr>button = True, live_preview = False, text_input = ''What is this?'', uploaded_file = Some \<lparr>file_name = ''x.jpg'', file_type = ''image/jpeg'', file_bytes = [1, 2]\<rparr>\<rparr> = Some \<lparr>file_name = ''x.jpg'', file_type = ''image/jpeg'', file_bytes = [1, 2]\<rparr> \<and>
   file_type \<lparr>file_name = ''x.jpg'', file_type = ''image/jpeg'', file_bytes = [1, 2]\<rparr> \<noteq> ''application/pdf'' \<and>
   demo_server ListModels = Inr (PDict [(''models'', PList [])]) \<and>
   pil_open demo_lib (file_bytes \<lparr>file_name = ''x.jpg'', file_type = ''image/jpeg'', file_bytes = [1, 2]\<rparr>) = Inr 2 \<and>
   image_to_base64 (pil_save_jpeg demo_lib) 2 = Inr (ascii_decode (b64encode (replicate 2 0xFF))) \<and>
   demo_server (Chat ''llava'' [image_message ''What is this?'' (ascii_decode (b64encode (replicate 2 0xFF)))]) =
     Inr (PDict [(''message'', PDict [(''content'', PStr ''a picture'')])]) \<and>
   py_getitem (PDict [(''message'', PDict [(''content'', PStr ''a picture'')])]) ''message'' =
     Inr (PDict [(''content'', PStr ''a picture'')]) \<and>
   py_getitem (PDict [(''content'', PStr ''a picture'')]) ''content'' = Inr (PStr ''a picture'') \<and>
   fst (page_run demo_lib demo_server
          \<lparr>button = True, live_preview = False, text_input = ''What is this?'', uploaded_file = Some \<lparr>file_name = ''x.jpg'', file_type = ''image/jpeg'', file_bytes = [1, 2]\<rparr>\<rparr> []) =
     \<lparr>response_view = Some ''**Response:** a picture'', previews = [ImageEl 2 ''Uploaded Image'']\<rparr>"
proof -
  let ?w = "\<lparr>button = True, live_preview = False, text_input = ''What is this?'', uploaded_file = Some \<lparr>file_name = ''x.jpg'', file_type = ''image/jpeg'', file_bytes = [1, 2]\<rparr>\<rparr>"
  let ?b = "ascii_decode (b64encode (replicate 2 0xFF))"
  have h1: "triggered ?w" by (simp add: triggered_def)
  have h2: "uploaded_file ?w = Some \<lparr>file_name = ''x.jpg'', file_type = ''image/jpeg'', file_bytes = [1, 2]\<rparr>" by simp
  have h3: "file_type \<lparr>file_name = ''x.jpg'', file_type = ''image/jpeg'', file_bytes = [1, 2]\<rparr> \<noteq> ''application/pdf''" by simp
  have h4: "demo_server ListModels = Inr (PDict [(''models'', PList [])])"
    by (simp add: demo_server_def)
  have h5: "pil_open demo_lib (file_bytes \<lparr>file_name = ''x.jpg'', file_type = ''image/jpeg'', file_bytes = [1, 2]\<rparr>) = Inr 2"
    by (simp add: demo_lib_def)
  have h6: "image_to_base64 (pil_save_jpeg demo_lib) 2 = Inr ?b"
    by (simp add: demo_lib_def image_to_base64_def)
  have h7: "demo_server (Chat ''llava'' [image_message (text_input ?w) ?b]) =
      Inr (PDict [(''message'', PDict [(''content'', PStr ''a picture'')])])"
    by (simp add: demo_server_def)
  have h8: "py_getitem (PDict [(''message'', PDict [(''content'', PStr ''a picture'')])]) ''message'' =
      Inr (PDict [(''content'', PStr ''a picture'')])"
    by simp
  have h9: "py_getitem (PDict [(''content'', PStr ''a picture'')]) ''content'' = Inr (PStr ''a picture'')"
    by simp
  show ?thesis
    using page_run_image_display [OF h1 h2 h3 h4 h5 h6 h7 h8 h9, of "[]"] h1 h2 h3 h4 h5 h6 h7 h8 h9
    by simp
qed

text \<open>
  C19.  Every triggered run answers: whatever the prompt, the upload, the libraries
  and the server, the response area shows \<open>**Response:** \<close> followed either by the
  error string of some exception, or by \<open>str\<close> of a field (\<open>response\<close>, or
  \<open>message\<close> then \<open>content\<close>) of the reply the server gave to the one model call the
  run made after the probe.  The answer is never taken from the probe's reply.
\<close>

theorem page_run_answers:
  assumes "triggered w"
  shows "\<exists>s. response_view (fst (page_run lib srv w log)) = Some (''**Response:** '' @ s) \<and>
     ((\<exists>e. s = error_text e) \<or>
      (\<exists>req reply v. snd (page_run lib srv w log) = log @ [ListModels, req] \<and> srv req = Inr reply \<and>
         s = py_str v \<and>
         (py_getitem reply ''response'' = Inr v \<or>
          (\<exists>m. py_getitem reply ''message'' = Inr m \<and> py_getitem m ''content'' = Inr v))))"
proof (cases "fst (respond lib srv (text_input w) (uploaded_file w) log)")
  case (Inl e)
  then have "get_ollama_response lib srv (text_input w) (uploaded_file w) log =
      ((PStr (error_text e), NoExtra), snd (respond lib srv (text_input w) (uploaded_file w) log))"
    by (rule get_ollama_response_Inl)
  with assms show ?thesis
    by (auto simp: page_run_def)
next
  case (Inr rx)
  then obtain r x where rx: "fst (respond lib srv (text_input w) (uploaded_file w) log) = Inr (r, x)"
    by (cases rx) simp
  then have g: "get_ollama_response lib srv (text_input w) (uploaded_file w) log =
      ((r, x), snd (respond lib srv (text_input w) (uploaded_file w) log))"
    by (rule get_ollama_response_Inr)
  from respond_Inr_reply [OF rx] obtain req reply where
    "snd (respond lib srv (text_input w) (uploaded_file w) log) = log @ [ListModels, req]"
    "srv req = Inr reply"
    "py_getitem reply ''response'' = Inr r \<or>
     (\<exists>m. py_getitem reply ''message'' = Inr m \<and> py_getitem m ''content'' = Inr r)"
    by blast
  with g assms show ?thesis
    by (intro exI [of _ "py_str r"]) (auto simp: page_run_def)
qed

theorem page_run_answers_witness:
  "triggered \<lparr>button = True, live_preview = False, text_input = ''Hi'', uploaded_file = None\<rparr> \<and>
   (\<exists>s. response_view (fst (page_run demo_lib demo_server \<lparr>button = True, live_preview = False, text_input = ''Hi'', uploaded_file = None\<rparr> [])) = Some (''**Response:** '' @ s) \<and>
     ((\<exists>e. s = error_text e) \<or>
      (\<exists>req reply v. snd (page_run demo_lib demo_server \<lparr>button = True, live_preview = False, text_input = ''Hi'', uploaded_file = None\<rparr> []) = [] @ [ListModels, req] \<and>
         demo_server req = Inr reply \<and> s = py_str v \<and>
         (py_getitem reply ''response'' = Inr v \<or>
          (\<exists>m. py_getitem reply ''message'' = Inr m \<and> py_getitem m ''content'' = Inr v)))))"
proof -
  have h: "triggered \<lparr>button = True, live_preview = False, text_input = ''Hi'', uploaded_file = None\<rparr>"
    by (simp add: triggered_def)
  have c: "\<exists>s. response_view (fst (page_run demo_lib demo_server \<lparr>button = True, live_preview = False, text_input = ''Hi'', uploaded_file = None\<rparr> [])) = Some (''**Response:** '' @ s) \<and>
     ((\<exists>e. s = error_text e) \<or>
      (\<exists>req reply v. snd (page_run demo_lib demo_server \<lparr>button = True, live_preview = False, text_input = ''Hi'', uploaded_file = None\<rparr> []) = [] @ [ListModels, req] \<and>
         demo_server req = Inr reply \<and> s = py_str v \<and>
         (py_getitem reply ''response'' = Inr v \<or>
          (\<exists>m. py_getitem reply ''message'' = Inr m \<and> py_getitem m ''content'' = Inr v))))"
    by (rule page_run_answers [OF h])
  show ?thesis
    by (intro conjI h c)
qed

end
